theory Spec2Isabelle
  imports Main
begin

section \<open>The result envelope (handlers/apiHandler.go)\<close>

text \<open>
  The Go structs \<open>ErrorResponse\<close>, \<open>HandlerSuccess\<close>, \<open>HandlerError\<close>, \<open>user\<close>,
  \<open>userRequest\<close>, \<open>loginRequest\<close> and \<open>authResponse\<close>. Go lets two structs share a field
  name; here the second occurrence of a name gets a prefix (\<open>ErrStatus\<close>, \<open>ErrMessage\<close>,
  \<open>req_Name\<close>, ...). A Go \<open>interface{}\<close> that may be \<open>nil\<close> is an \<open>option\<close>, a pointer
  result that may be \<open>nil\<close> likewise.
\<close>

record ErrorResponse =
  Code :: string
  Message :: string
  Detail :: string

record user =
  ID :: int
  Name :: string
  Email :: string
  Role :: string

record userRequest =
  req_Name :: string
  req_Email :: string

record loginRequest =
  login_Email :: string
  login_Password :: string

record authResponse =
  auth_Message :: string
  Token :: string

text \<open>What a handler puts into \<open>HandlerSuccess.Data\<close> or hands to the JSON encoder.\<close>

datatype payload =
  UserData user
  | UserList "user list"
  | AuthData authResponse
  | ErrorData ErrorResponse

record HandlerSuccess =
  Status :: int
  Data :: "payload option"

record HandlerError =
  ErrStatus :: int
  ErrMessage :: ErrorResponse

section \<open>Requests, contexts and the response writer\<close>

text \<open>
  A \<open>context.Context\<close> is a chain of key/value bindings, the innermost first. Go compares
  context keys as interface values: the dynamic type takes part in the comparison, so the
  key \<open>contextKey("role")\<close> of middlewares.go and the plain string key \<open>"role"\<close> are
  different keys. The two key types are the two constructors of \<open>ctx_key\<close>.
\<close>

datatype ctx_key = contextKey string | stringKey string

datatype iface = IString string | INumber int | IBool bool

type_synonym ctx = "(ctx_key \<times> iface) list"

definition ContextUsernameKey :: ctx_key where
  "ContextUsernameKey = contextKey ''username''"

definition ContextRoleKey :: ctx_key where
  "ContextRoleKey = contextKey ''role''"

definition WithValue :: "ctx \<Rightarrow> ctx_key \<Rightarrow> iface \<Rightarrow> ctx" where
  "WithValue parent k v = (k, v) # parent"

definition ctx_Value :: "ctx \<Rightarrow> ctx_key \<Rightarrow> iface option" where
  "ctx_Value c k = map_of c k"

record request =
  Header :: "(string \<times> string list) list"
  URLParams :: "(string \<times> string) list"
  Body :: string
  Context :: ctx

text \<open>\<open>r.Header.Get(key)\<close>: the first value of the key, the empty string when there is none.\<close>

definition Header_Get :: "(string \<times> string list) list \<Rightarrow> string \<Rightarrow> string" where
  "Header_Get h k = (case map_of h k of Some (v # vs) \<Rightarrow> v | _ \<Rightarrow> [])"

text \<open>\<open>chi.URLParam(r, key)\<close>: the empty string when the route has no such parameter.\<close>

definition URLParam :: "request \<Rightarrow> string \<Rightarrow> string" where
  "URLParam r k = (case map_of (URLParams r) k of Some v \<Rightarrow> v | None \<Rightarrow> [])"

text \<open>
  The handlers use an \<open>http.ResponseWriter\<close> through three calls only:
  \<open>w.Header().Set(k, v)\<close>, \<open>w.WriteHeader(code)\<close> and \<open>json.NewEncoder(w).Encode(v)\<close>.
  The writer is the list of the calls made on it, in order.
\<close>

datatype rw_call =
  Header_Set string string
  | WriteHeader int
  | Encode "payload option"

section \<open>The store\<close>

text \<open>
  The table \<open>users\<close> and the statements the handlers send. Every statement is logged in
  \<open>executed\<close>, so that "the handler never ran the UPDATE" is a fact about the state. An
  infrastructure failure is scripted in \<open>faults\<close>: each statement consumes the head of the
  script and fails with it when it is \<open>Some\<close>. \<open>ErrNoRows\<close> is not a fault: pgx returns it
  from \<open>Row.Scan\<close> when a query has no row, and never from \<open>Exec\<close>.
\<close>

record user_row =
  row_id :: int
  row_name :: string
  row_email :: string
  row_password :: string
  row_role :: string

datatype stmt =
  SELECT_id_name_by_id int
  | UPDATE_name_email_by_id string string int
  | DELETE_by_id int
  | SELECT_by_email string
  | SELECT_by_email_and_password string string

datatype fault = PgFault string | ConnFault

datatype db_error = ErrNoRows | PgError string | ConnError

record db_state =
  users :: "user_row list"
  faults :: "fault option list"
  executed :: "stmt list"

record world =
  W :: "rw_call list"
  DB :: db_state

definition w_call :: "rw_call \<Rightarrow> world \<Rightarrow> world" where
  "w_call c s = s\<lparr>W := W s @ [c]\<rparr>"

fun fault_error :: "fault \<Rightarrow> db_error" where
  "fault_error (PgFault code) = PgError code"
| "fault_error ConnFault = ConnError"

definition begin_stmt :: "stmt \<Rightarrow> db_state \<Rightarrow> fault option \<times> db_state" where
  "begin_stmt st db =
     (case faults db of
        [] \<Rightarrow> (None, db\<lparr>executed := executed db @ [st]\<rparr>)
      | f # fs \<Rightarrow> (f, db\<lparr>faults := fs, executed := executed db @ [st]\<rparr>))"

text \<open>\<open>SELECT id, name FROM users WHERE id = $1\<close>, read with \<open>QueryRow(...).Scan\<close>.\<close>

definition QueryRow_select_by_id :: "int \<Rightarrow> db_state \<Rightarrow> (db_error + user_row) \<times> db_state" where
  "QueryRow_select_by_id i db =
     (case begin_stmt (SELECT_id_name_by_id i) db of
        (Some f, db') \<Rightarrow> (Inl (fault_error f), db')
      | (None, db') \<Rightarrow>
          (case find (\<lambda>u. row_id u = i) (users db') of
             None \<Rightarrow> (Inl ErrNoRows, db')
           | Some u \<Rightarrow> (Inr u, db')))"

text \<open>
  \<open>UPDATE users SET name = $1, email = $2 WHERE id = $3 RETURNING id, name, email\<close>, read
  with \<open>QueryRow(...).Scan\<close>. The table's schema is not among the source files; an error
  the server raises for a constraint of the schema (23505 for a duplicate email) is one of
  the faults a statement can be scripted to fail with.
\<close>

definition QueryRow_update :: "string \<Rightarrow> string \<Rightarrow> int \<Rightarrow> db_state \<Rightarrow> (db_error + user_row) \<times> db_state" where
  "QueryRow_update n e i db =
     (case begin_stmt (UPDATE_name_email_by_id n e i) db of
        (Some f, db') \<Rightarrow> (Inl (fault_error f), db')
      | (None, db') \<Rightarrow>
          (case find (\<lambda>u. row_id u = i) (users db') of
             None \<Rightarrow> (Inl ErrNoRows, db')
           | Some u \<Rightarrow>
               (Inr (u\<lparr>row_name := n, row_email := e\<rparr>),
                db'\<lparr>users := map (\<lambda>v. if row_id v = i then v\<lparr>row_name := n, row_email := e\<rparr> else v)
                                  (users db')\<rparr>)))"

text \<open>
  \<open>DELETE FROM users WHERE id = $1\<close>, sent with \<open>Exec\<close>. The command tag (the number of
  rows deleted) is the value the source drops with \<open>_\<close>; a DELETE that matches no row
  succeeds with the tag 0.
\<close>

definition Exec_delete :: "int \<Rightarrow> db_state \<Rightarrow> (nat \<times> db_error option) \<times> db_state" where
  "Exec_delete i db =
     (case begin_stmt (DELETE_by_id i) db of
        (Some f, db') \<Rightarrow> ((0, Some (fault_error f)), db')
      | (None, db') \<Rightarrow>
          ((length (filter (\<lambda>u. row_id u = i) (users db')), None),
           db'\<lparr>users := filter (\<lambda>u. row_id u \<noteq> i) (users db')\<rparr>))"

text \<open>\<open>SELECT id, name, email, role, password FROM users WHERE email = $1\<close> (Login).\<close>

definition QueryRow_select_by_email :: "string \<Rightarrow> db_state \<Rightarrow> (db_error + user_row) \<times> db_state" where
  "QueryRow_select_by_email e db =
     (case begin_stmt (SELECT_by_email e) db of
        (Some f, db') \<Rightarrow> (Inl (fault_error f), db')
      | (None, db') \<Rightarrow>
          (case find (\<lambda>u. row_email u = e) (users db') of
             None \<Rightarrow> (Inl ErrNoRows, db')
           | Some u \<Rightarrow> (Inr u, db')))"

text \<open>
  \<open>SELECT id, name, email, role FROM users WHERE email = $1 AND password = $2\<close>, the query
  of the Login that compares the password inside the store.
\<close>

definition QueryRow_select_by_email_and_password ::
  "string \<Rightarrow> string \<Rightarrow> db_state \<Rightarrow> (db_error + user_row) \<times> db_state" where
  "QueryRow_select_by_email_and_password e p db =
     (case begin_stmt (SELECT_by_email_and_password e p) db of
        (Some f, db') \<Rightarrow> (Inl (fault_error f), db')
      | (None, db') \<Rightarrow>
          (case find (\<lambda>u. row_email u = e \<and> row_password u = p) (users db') of
             None \<Rightarrow> (Inl ErrNoRows, db')
           | Some u \<Rightarrow> (Inr u, db')))"

section \<open>Library calls the handlers rely on\<close>

text \<open>
  The handlers call the token library (golang-jwt), the password hasher (bcrypt), the JSON
  decoder and the process environment. None of them is code of this repository. What the
  handlers need of them is collected in an environment record: the decoding of a token
  string into its parts, the check of a signature under a key, the signing of claims, the
  decoding of a request body into a struct, the hasher's verify function, the secret
  (\<open>os.Getenv("JWT_SECRET")\<close>) and the clock (\<open>time.Now().Unix()\<close>).
\<close>

datatype SigningMethod =
  SigningMethodHMAC string
  | SigningMethodRSA string
  | SigningMethodECDSA string
  | SigningMethodNone

type_synonym MapClaims = "(string \<times> iface) list"

record Token_jwt =
  Method :: SigningMethod
  Claims :: MapClaims
  Signature :: string
  Valid :: bool

datatype jwt_error =
  ErrTokenMalformed
  | ErrTokenUnverifiable
  | ErrTokenSignatureInvalid
  | ErrTokenExpired
  | ErrTokenInvalidClaims

record env =
  JWT_SECRET :: string
  now :: int
  decode_token :: "string \<Rightarrow> Token_jwt option"
  signature_ok :: "Token_jwt \<Rightarrow> string \<Rightarrow> bool"
  SignedString :: "MapClaims \<Rightarrow> string \<Rightarrow> string option"
  decode_userRequest :: "string \<Rightarrow> userRequest option"
  decode_loginRequest :: "string \<Rightarrow> loginRequest option"
  CompareHashAndPassword :: "string \<Rightarrow> string \<Rightarrow> bool"

text \<open>
  The library's validation of the registered claims, as far as the tokens of this program
  carry them: a token with an \<open>exp\<close> claim is valid while the clock is before it.
\<close>

definition validate_claims :: "int \<Rightarrow> MapClaims \<Rightarrow> jwt_error option" where
  "validate_claims t c =
     (case map_of c ''exp'' of
        None \<Rightarrow> None
      | Some (INumber ex) \<Rightarrow> if t < ex then None else Some ErrTokenExpired
      | Some _ \<Rightarrow> Some ErrTokenInvalidClaims)"

text \<open>
  \<open>jwt.Parse(tokenString, keyFunc)\<close>: decode the token, ask the caller's \<open>keyFunc\<close> for
  the key (its error makes the token unverifiable), check the signature under that key,
  validate the claims, and only then mark the token valid.
\<close>

definition jwt_Parse :: "env \<Rightarrow> string \<Rightarrow> (Token_jwt \<Rightarrow> string + string) \<Rightarrow> jwt_error + Token_jwt" where
  "jwt_Parse e tokenString keyFunc =
     (case decode_token e tokenString of
        None \<Rightarrow> Inl ErrTokenMalformed
      | Some token \<Rightarrow>
          (case keyFunc token of
             Inl msg \<Rightarrow> Inl ErrTokenUnverifiable
           | Inr key \<Rightarrow>
               if \<not> signature_ok e token key then Inl ErrTokenSignatureInvalid
               else (case validate_claims (now e) (Claims token) of
                       Some err \<Rightarrow> Inl err
                     | None \<Rightarrow> Inr (token\<lparr>Valid := True\<rparr>))))"

text \<open>\<open>strings.Split(s, sep)\<close> for a separator of one character (the source splits on " ").\<close>

fun strings_Split :: "string \<Rightarrow> char \<Rightarrow> string list" where
  "strings_Split [] sep = [[]]"
| "strings_Split (c # cs) sep =
     (if c = sep then [] # strings_Split cs sep
      else (case strings_Split cs sep of
              p # ps \<Rightarrow> (c # p) # ps
            | [] \<Rightarrow> [[c]]))"

text \<open>
  \<open>strconv.Atoi\<close>: an optional sign, then at least one decimal digit and nothing else;
  a value outside the 64-bit \<open>int\<close> is an error.
\<close>

definition digit_of :: "char \<Rightarrow> int option" where
  "digit_of c =
     map_of [(CHR ''0'', 0), (CHR ''1'', 1), (CHR ''2'', 2), (CHR ''3'', 3), (CHR ''4'', 4),
             (CHR ''5'', 5), (CHR ''6'', 6), (CHR ''7'', 7), (CHR ''8'', 8), (CHR ''9'', 9)] c"

fun parse_digits :: "string \<Rightarrow> int \<Rightarrow> int option" where
  "parse_digits [] acc = Some acc"
| "parse_digits (c # cs) acc =
     (case digit_of c of
        None \<Rightarrow> None
      | Some d \<Rightarrow> parse_digits cs (10 * acc + d))"

definition Atoi :: "string \<Rightarrow> int option" where
  "Atoi s =
     (let neg = (take 1 s = ''-'');
          ds = (if take 1 s = ''-'' \<or> take 1 s = ''+'' then drop 1 s else s)
      in if ds = [] then None
         else (case parse_digits ds 0 of
                 None \<Rightarrow> None
               | Some n \<Rightarrow>
                   (let v = (if neg then - n else n)
                    in if - (2 ^ 63) \<le> v \<and> v < 2 ^ 63 then Some v else None)))"

section \<open>Handlers and adapters (handlers/apiHandler.go)\<close>

text \<open>
  An \<open>ApiHandlerFunc\<close> returns the pair \<open>(*HandlerSuccess, *HandlerError)\<close>, or panics.
  It is a function of the request and of the world it runs in: the response writer and
  the store. An \<open>http.Handler\<close> returns nothing.
\<close>

datatype 'a outcome = Return 'a | Panic

type_synonym ApiHandlerFunc =
  "request \<Rightarrow> world \<Rightarrow> (HandlerSuccess option \<times> HandlerError option) outcome \<times> world"

type_synonym HandlerFunc = "request \<Rightarrow> world \<Rightarrow> unit outcome \<times> world"

definition ApiHandlerAdapter :: "ApiHandlerFunc \<Rightarrow> HandlerFunc" where
  "ApiHandlerAdapter handler r s =
     (case handler r (w_call (Header_Set ''Content-Type'' ''application/json'') s) of
        (Panic, s') \<Rightarrow> (Panic, s')
      | (Return (success, err), s') \<Rightarrow>
          (case err of
             Some e \<Rightarrow>
               (Return (), w_call (Encode (Some (ErrorData (ErrMessage e))))
                             (w_call (WriteHeader (ErrStatus e)) s'))
           | None \<Rightarrow>
               (case success of
                  Some sc \<Rightarrow>
                    (Return (), w_call (Encode (Data sc)) (w_call (WriteHeader (Status sc)) s'))
                | None \<Rightarrow> (Return (), s'))))"

text \<open>
  \<open>MiddlewareAdapter\<close> turns a typed middleware into a middleware of the router. Its
  closure \<open>handler\<close> (here \<open>MiddlewareAdapter_handler\<close>) runs the rest of the chain and
  returns \<open>nil, nil\<close>.
\<close>

definition MiddlewareAdapter_handler :: "HandlerFunc \<Rightarrow> ApiHandlerFunc" where
  "MiddlewareAdapter_handler next r s =
     (case next r s of
        (Panic, s') \<Rightarrow> (Panic, s')
      | (Return u, s') \<Rightarrow> (Return (None, None), s'))"

definition MiddlewareAdapter :: "(ApiHandlerFunc \<Rightarrow> ApiHandlerFunc) \<Rightarrow> HandlerFunc \<Rightarrow> HandlerFunc" where
  "MiddlewareAdapter mw next r s =
     (case mw (MiddlewareAdapter_handler next) r
             (w_call (Header_Set ''Content-Type'' ''application/json'') s) of
        (Panic, s') \<Rightarrow> (Panic, s')
      | (Return (success, err), s') \<Rightarrow>
          (case err of
             Some e \<Rightarrow>
               (Return (), w_call (Encode (Some (ErrorData (ErrMessage e))))
                             (w_call (WriteHeader (ErrStatus e)) s'))
           | None \<Rightarrow>
               (case success of
                  Some sc \<Rightarrow>
                    (Return (),
                     (if Data sc \<noteq> None then w_call (Encode (Data sc)) else id)
                       (w_call (WriteHeader (Status sc)) s'))
                | None \<Rightarrow> (Return (), s'))))"

text \<open>The key function \<open>VerifyJwtToken\<close> hands to \<open>jwt.Parse\<close>: HMAC methods only.\<close>

definition keyFunc :: "env \<Rightarrow> Token_jwt \<Rightarrow> string + string" where
  "keyFunc e token =
     (case Method token of
        SigningMethodHMAC alg \<Rightarrow> Inr (JWT_SECRET e)
      | _ \<Rightarrow> Inl ''unexpected signing method'')"

text \<open>
  \<open>VerifyJwtToken\<close> returns \<open>(claims, err)\<close>. Its last branch returns \<open>nil, err\<close> with
  \<open>err\<close> known to be \<open>nil\<close> there.
\<close>

definition VerifyJwtToken :: "env \<Rightarrow> string \<Rightarrow> MapClaims option \<times> jwt_error option" where
  "VerifyJwtToken e tokenString =
     (case jwt_Parse e tokenString (keyFunc e) of
        Inl err \<Rightarrow> (None, Some err)
      | Inr token \<Rightarrow> if Valid token then (Some (Claims token), None) else (None, None))"

section \<open>The middlewares (handlers/middlewares.go)\<close>

text \<open>\<open>claims[k].(string)\<close>: a missing key, a \<open>nil\<close> map or a value that is no string panics.\<close>

definition claim_string :: "MapClaims option \<Rightarrow> string \<Rightarrow> string option" where
  "claim_string claims k =
     (case claims of
        None \<Rightarrow> None
      | Some m \<Rightarrow> (case map_of m k of Some (IString v) \<Rightarrow> Some v | _ \<Rightarrow> None))"

definition OnlyAdminMiddleware :: "ApiHandlerFunc \<Rightarrow> ApiHandlerFunc" where
  "OnlyAdminMiddleware next r s =
     (case ctx_Value (Context r) ContextRoleKey of
        Some (IString role) \<Rightarrow>
          if role \<noteq> ''admin''
          then (Return (None, Some \<lparr>ErrStatus = 403,
                  ErrMessage = \<lparr>Code = ''E403'', Message = ''Forbidden'',
                                Detail = ''You are not an admin''\<rparr>\<rparr>), s)
          else next r s
      | _ \<Rightarrow> (Panic, s))"

definition JWTAuthMiddleware :: "env \<Rightarrow> ApiHandlerFunc \<Rightarrow> ApiHandlerFunc" where
  "JWTAuthMiddleware e next r s =
     (let authHeader = Header_Get (Header r) ''Authorization'' in
      if authHeader = []
      then (Return (None, Some \<lparr>ErrStatus = 401,
              ErrMessage = \<lparr>Code = ''E401'', Message = ''Unauthorized'',
                            Detail = ''Missing token''\<rparr>\<rparr>), s)
      else
        (let parts = strings_Split authHeader CHR '' '' in
         if length parts \<noteq> 2 \<or> parts ! 0 \<noteq> ''Bearer''
         then (Return (None, Some \<lparr>ErrStatus = 401,
                 ErrMessage = \<lparr>Code = ''E401'', Message = ''Unauthorized'',
                               Detail = ''Invalid token format''\<rparr>\<rparr>), s)
         else
           (case VerifyJwtToken e (parts ! 1) of
              (claims, Some err) \<Rightarrow>
                (Return (None, Some \<lparr>ErrStatus = 401,
                   ErrMessage = \<lparr>Code = ''E401'', Message = ''Unauthorized'',
                                 Detail = ''Invalid token''\<rparr>\<rparr>), s)
            | (claims, None) \<Rightarrow>
                (case claim_string claims ''username'' of
                   None \<Rightarrow> (Panic, s)
                 | Some username \<Rightarrow>
                     (case claim_string claims ''role'' of
                        None \<Rightarrow> (Panic, s)
                      | Some role \<Rightarrow>
                          (case next (r\<lparr>Context :=
                                         WithValue (WithValue (Context r) ContextUsernameKey
                                                      (IString username))
                                           ContextRoleKey (IString role)\<rparr>) s of
                             (Panic, s') \<Rightarrow> (Panic, s')
                           | (Return res, s') \<Rightarrow>
                               (Return (Some \<lparr>Status = 200, Data = None\<rparr>, None), s')))))))"

section \<open>The user handlers (handlers/userHandler.go)\<close>

text \<open>
  \<open>updateUser\<close>: the path id, the body, its validation, the SELECT of the target, the
  authorization test and the UPDATE, in the order of the source. The authorization test
  reads the context under the plain string key \<open>"role"\<close> and compares the interface value
  with the string \<open>"admin"\<close>.
\<close>

definition updateUser :: "env \<Rightarrow> ApiHandlerFunc" where
  "updateUser e r s =
     (let idStr = URLParam r ''id'' in
      case Atoi idStr of
        None \<Rightarrow>
          (Return (None, Some \<lparr>ErrStatus = 400,
             ErrMessage = \<lparr>Code = ''E400'', Message = ''Not a valid id'',
                           Detail = ''Path parameter 'id' must be an integer''\<rparr>\<rparr>), s)
      | Some i \<Rightarrow>
          (case decode_userRequest e (Body r) of
             None \<Rightarrow>
               (Return (None, Some \<lparr>ErrStatus = 400,
                  ErrMessage = \<lparr>Code = ''E400'', Message = ''Bad request'',
                                Detail = ''Invalid request body''\<rparr>\<rparr>), s)
           | Some updateUserReq \<Rightarrow>
               if req_Name updateUserReq = [] \<or> req_Email updateUserReq = []
               then (Return (None, Some \<lparr>ErrStatus = 400,
                       ErrMessage = \<lparr>Code = ''E400'', Message = ''Bad request'',
                                     Detail = ''name and email are required''\<rparr>\<rparr>), s)
               else
                 (case QueryRow_select_by_id i (DB s) of
                    (Inl err, db1) \<Rightarrow>
                      if err = ErrNoRows
                      then (Return (None, Some \<lparr>ErrStatus = 404,
                              ErrMessage = \<lparr>Code = ''E404'', Message = ''Not found'',
                                            Detail = ''User with id '' @ idStr @ '' not found''\<rparr>\<rparr>),
                            s\<lparr>DB := db1\<rparr>)
                      else (Return (None, Some \<lparr>ErrStatus = 500,
                              ErrMessage = \<lparr>Code = ''E500'', Message = ''Internal Server Error'',
                                Detail = ''Something went wrong. Contact support or try again later''\<rparr>\<rparr>),
                            s\<lparr>DB := db1\<rparr>)
                  | (Inr foundUser, db1) \<Rightarrow>
                      if row_id foundUser \<noteq> i
                         \<or> ctx_Value (Context r) (stringKey ''role'') \<noteq> Some (IString ''admin'')
                      then (Return (None, Some \<lparr>ErrStatus = 403,
                              ErrMessage = \<lparr>Code = ''E403'', Message = ''Forbidden'',
                                Detail = ''You are no authorized to update another user than yourself''\<rparr>\<rparr>),
                            s\<lparr>DB := db1\<rparr>)
                      else
                        (case QueryRow_update (req_Name updateUserReq) (req_Email updateUserReq) i db1 of
                           (Inl err, db2) \<Rightarrow>
                             (Return (None, Some \<lparr>ErrStatus = 500,
                                ErrMessage = \<lparr>Code = ''E500'', Message = ''Internal Server Error'',
                                  Detail = ''Something went wrong. Contact support or try again later''\<rparr>\<rparr>),
                              s\<lparr>DB := db2\<rparr>)
                         | (Inr u, db2) \<Rightarrow>
                             (Return (Some \<lparr>Status = 200,
                                Data = Some (UserData \<lparr>ID = row_id u, Name = row_name u,
                                                       Email = row_email u, Role = []\<rparr>)\<rparr>, None),
                              s\<lparr>DB := db2\<rparr>)))))"

text \<open>
  \<open>deleteUser\<close>: the path id, then the DELETE through \<open>Exec\<close>, whose error is compared with
  \<open>pgx.ErrNoRows\<close>; on success the envelope is 204 with \<open>nil\<close> data.
\<close>

definition deleteUser :: "ApiHandlerFunc" where
  "deleteUser r s =
     (let idStr = URLParam r ''id'' in
      case Atoi idStr of
        None \<Rightarrow>
          (Return (None, Some \<lparr>ErrStatus = 400,
             ErrMessage = \<lparr>Code = ''E400'', Message = ''Not a valid id'',
                           Detail = ''Path parameter 'id' must be an integer''\<rparr>\<rparr>), s)
      | Some i \<Rightarrow>
          (case Exec_delete i (DB s) of
             ((tag, Some err), db1) \<Rightarrow>
               if err = ErrNoRows
               then (Return (None, Some \<lparr>ErrStatus = 404,
                       ErrMessage = \<lparr>Code = ''E404'', Message = ''Not found'',
                                     Detail = ''User with id '' @ idStr @ '' not found''\<rparr>\<rparr>),
                     s\<lparr>DB := db1\<rparr>)
               else (Return (None, Some \<lparr>ErrStatus = 500,
                       ErrMessage = \<lparr>Code = ''E500'', Message = ''Internal Server Error'',
                         Detail = ''Something went wrong. Contact support or try again later''\<rparr>\<rparr>),
                     s\<lparr>DB := db1\<rparr>)
           | ((tag, None), db1) \<Rightarrow>
               (Return (Some \<lparr>Status = 204, Data = None\<rparr>, None), s\<lparr>DB := db1\<rparr>)))"

text \<open>\<open>logSomething\<close> writes a log line and calls the next handler; logs are not modelled.\<close>

definition logSomething :: "HandlerFunc \<Rightarrow> HandlerFunc" where
  "logSomething next r s = next r s"

text \<open>
  Two routes of \<open>UserRouter\<close>. \<open>r.With(m1, m2).HandleFunc(p, h)\<close> serves \<open>m1 (m2 h)\<close>, inside
  the router's own middleware \<open>logSomething\<close>.
\<close>

definition route_PUT_id :: "env \<Rightarrow> HandlerFunc" where
  "route_PUT_id e =
     logSomething (MiddlewareAdapter (JWTAuthMiddleware e) (ApiHandlerAdapter (updateUser e)))"

definition route_DELETE_id :: "env \<Rightarrow> HandlerFunc" where
  "route_DELETE_id e =
     logSomething (MiddlewareAdapter (JWTAuthMiddleware e)
       (MiddlewareAdapter OnlyAdminMiddleware (ApiHandlerAdapter deleteUser)))"

section \<open>The authentication handler\<close>

text \<open>\<open>CreateJwtToken\<close>: the claims \<open>username\<close>, \<open>role\<close> and \<open>exp\<close>, fifteen minutes ahead.\<close>

definition CreateJwtToken :: "env \<Rightarrow> string \<Rightarrow> string \<Rightarrow> string option" where
  "CreateJwtToken e username role =
     SignedString e [(''username'', IString username), (''role'', IString role),
                     (''exp'', INumber (now e + 15 * 60))] (JWT_SECRET e)"

text \<open>
  \<open>Login\<close> as the source file with the bcrypt import has it: the row is selected by email
  alone and the stored hash is checked with \<open>bcrypt.CompareHashAndPassword(hash, password)\<close>.
\<close>

definition Login :: "env \<Rightarrow> ApiHandlerFunc" where
  "Login e r s =
     (case decode_loginRequest e (Body r) of
        None \<Rightarrow>
          (Return (None, Some \<lparr>ErrStatus = 400,
             ErrMessage = \<lparr>Code = ''E400'', Message = ''Invalid request body'',
                           Detail = ''Not a valid JSON''\<rparr>\<rparr>), s)
      | Some loginReq \<Rightarrow>
          if login_Email loginReq = [] \<or> login_Password loginReq = []
          then (Return (None, Some \<lparr>ErrStatus = 400,
                  ErrMessage = \<lparr>Code = ''E400'', Message = ''Invalid request body'',
                                Detail = ''email and password are required''\<rparr>\<rparr>), s)
          else
            (case QueryRow_select_by_email (login_Email loginReq) (DB s) of
               (Inl err, db1) \<Rightarrow>
                 if err = ErrNoRows
                 then (Return (None, Some \<lparr>ErrStatus = 401,
                         ErrMessage = \<lparr>Code = ''E401'', Message = ''Unauthorized'',
                                       Detail = ''Invalid email or password''\<rparr>\<rparr>),
                       s\<lparr>DB := db1\<rparr>)
                 else (Return (None, Some \<lparr>ErrStatus = 500,
                         ErrMessage = \<lparr>Code = ''E500'', Message = ''Internal Server Error'',
                           Detail = ''Something went wrong. Contact support or try again later''\<rparr>\<rparr>),
                       s\<lparr>DB := db1\<rparr>)
             | (Inr u, db1) \<Rightarrow>
                 if \<not> CompareHashAndPassword e (row_password u) (login_Password loginReq)
                 then (Return (None, Some \<lparr>ErrStatus = 401,
                         ErrMessage = \<lparr>Code = ''E401'', Message = ''Unauthorized'',
                                       Detail = ''Invalid email or password''\<rparr>\<rparr>),
                       s\<lparr>DB := db1\<rparr>)
                 else
                   (case CreateJwtToken e (row_name u) (row_role u) of
                      None \<Rightarrow>
                        (Return (None, Some \<lparr>ErrStatus = 500,
                           ErrMessage = \<lparr>Code = ''E500'', Message = ''Internal Server Error'',
                             Detail = ''Something went wrong. Contact support or try again later''\<rparr>\<rparr>),
                         s\<lparr>DB := db1\<rparr>)
                    | Some token \<Rightarrow>
                        (Return (Some \<lparr>Status = 200,
                           Data = Some (AuthData \<lparr>auth_Message = ''Login successful'',
                                                  Token = token\<rparr>)\<rparr>, None),
                         s\<lparr>DB := db1\<rparr>))))"

text \<open>
  \<open>Login\<close> as the other source file that declares it has it (the file that also holds the
  adapters): the password is an argument of the query, \<open>... WHERE email = $1 AND password = $2\<close>,
  and no hasher is called.
\<close>

definition Login_password_in_query :: "env \<Rightarrow> ApiHandlerFunc" where
  "Login_password_in_query e r s =
     (case decode_loginRequest e (Body r) of
        None \<Rightarrow>
          (Return (None, Some \<lparr>ErrStatus = 400,
             ErrMessage = \<lparr>Code = ''E400'', Message = ''Invalid request body'',
                           Detail = ''Not a valid JSON''\<rparr>\<rparr>), s)
      | Some loginReq \<Rightarrow>
          if login_Email loginReq = [] \<or> login_Password loginReq = []
          then (Return (None, Some \<lparr>ErrStatus = 400,
                  ErrMessage = \<lparr>Code = ''E400'', Message = ''Invalid request body'',
                                Detail = ''email and password are required''\<rparr>\<rparr>), s)
          else
            (case QueryRow_select_by_email_and_password (login_Email loginReq)
                    (login_Password loginReq) (DB s) of
               (Inl err, db1) \<Rightarrow>
                 if err = ErrNoRows
                 then (Return (None, Some \<lparr>ErrStatus = 401,
                         ErrMessage = \<lparr>Code = ''E401'', Message = ''Unauthorized'',
                                       Detail = ''Invalid email or password''\<rparr>\<rparr>),
                       s\<lparr>DB := db1\<rparr>)
                 else (Return (None, Some \<lparr>ErrStatus = 500,
                         ErrMessage = \<lparr>Code = ''E500'', Message = ''Internal Server Error'',
                           Detail = ''Something went wrong. Contact support or try again later''\<rparr>\<rparr>),
                       s\<lparr>DB := db1\<rparr>)
             | (Inr u, db1) \<Rightarrow>
                 (case CreateJwtToken e (row_name u) (row_role u) of
                    None \<Rightarrow>
                      (Return (None, Some \<lparr>ErrStatus = 500,
                         ErrMessage = \<lparr>Code = ''E500'', Message = ''Internal Server Error'',
                           Detail = ''Something went wrong. Contact support or try again later''\<rparr>\<rparr>),
                       s\<lparr>DB := db1\<rparr>)
                  | Some token \<Rightarrow>
                      (Return (Some \<lparr>Status = 200,
                         Data = Some (AuthData \<lparr>auth_Message = ''Login successful'',
                                                Token = token\<rparr>)\<rparr>, None),
                       s\<lparr>DB := db1\<rparr>))))"

section \<open>What the calls on the response writer send\<close>

text \<open>
  The contract of \<open>http.ResponseWriter\<close>: the first \<open>WriteHeader\<close> fixes the status and
  later ones are ignored as superfluous; a write before any \<open>WriteHeader\<close> sends 200 first;
  a status of 1xx, 204 or 304 allows no body, and a write under it fails, which the
  encoder returns as its error. The body is kept as the list of the values whose JSON text
  was written (the JSON text of \<open>nil\<close> is \<open>null\<close>).
\<close>

record wire =
  sent_status :: "int option"
  sent_body :: "payload option list"
  failed_writes :: nat
  superfluous_WriteHeader :: nat

definition bodyAllowedForStatus :: "int \<Rightarrow> bool" where
  "bodyAllowedForStatus st = (\<not> (100 \<le> st \<and> st \<le> 199) \<and> st \<noteq> 204 \<and> st \<noteq> 304)"

fun wire_step :: "wire \<Rightarrow> rw_call \<Rightarrow> wire" where
  "wire_step x (Header_Set k v) = x"
| "wire_step x (WriteHeader st) =
     (case sent_status x of
        None \<Rightarrow> x\<lparr>sent_status := Some st\<rparr>
      | Some st0 \<Rightarrow> x\<lparr>superfluous_WriteHeader := Suc (superfluous_WriteHeader x)\<rparr>)"
| "wire_step x (Encode v) =
     (let st = (case sent_status x of None \<Rightarrow> 200 | Some st0 \<Rightarrow> st0) in
      if bodyAllowedForStatus st
      then x\<lparr>sent_status := Some st, sent_body := sent_body x @ [v]\<rparr>
      else x\<lparr>sent_status := Some st, failed_writes := Suc (failed_writes x)\<rparr>)"

definition on_wire :: "rw_call list \<Rightarrow> wire" where
  "on_wire calls =
     foldl wire_step
       \<lparr>sent_status = None, sent_body = [], failed_writes = 0, superfluous_WriteHeader = 0\<rparr> calls"

definition count_WriteHeader :: "rw_call list \<Rightarrow> nat" where
  "count_WriteHeader calls = length (filter (\<lambda>c. case c of WriteHeader st \<Rightarrow> True | _ \<Rightarrow> False) calls)"

section \<open>Vocabulary of the properties\<close>

text \<open>The 401 envelope of \<open>JWTAuthMiddleware\<close> with the given detail.\<close>

definition Unauthorized :: "string \<Rightarrow> HandlerError" where
  "Unauthorized detail =
     \<lparr>ErrStatus = 401,
      ErrMessage = \<lparr>Code = ''E401'', Message = ''Unauthorized'', Detail = detail\<rparr>\<rparr>"

text \<open>
  A request has a valid \<open>Authorization\<close> header when the header's value is \<open>Bearer\<close>, one
  space and a token that \<open>VerifyJwtToken\<close> accepts.
\<close>

definition valid_Authorization :: "env \<Rightarrow> request \<Rightarrow> bool" where
  "valid_Authorization e r =
     (let parts = strings_Split (Header_Get (Header r) ''Authorization'') CHR '' '' in
      length parts = 2 \<and> parts ! 0 = ''Bearer'' \<and> snd (VerifyJwtToken e (parts ! 1)) = None)"

text \<open>What the adapters write for a rejected request: the header, the status, the error.\<close>

definition rejection :: "HandlerError \<Rightarrow> rw_call list" where
  "rejection err =
     [Header_Set ''Content-Type'' ''application/json'', WriteHeader (ErrStatus err),
      Encode (Some (ErrorData (ErrMessage err)))]"

section \<open>A concrete environment, store and requests\<close>

text \<open>
  An instance of the library calls on which the handlers can be run: five token strings
  with their decoded parts, a signature that is valid when it equals the key, a hasher
  that prefixes \<open>#\<close>, and decoders that know two request bodies each. The clock reads 1000.
\<close>

definition sample_token :: "SigningMethod \<Rightarrow> string \<Rightarrow> string \<Rightarrow> int \<Rightarrow> string \<Rightarrow> Token_jwt" where
  "sample_token m username role ex sg =
     \<lparr>Method = m,
      Claims = [(''username'', IString username), (''role'', IString role), (''exp'', INumber ex)],
      Signature = sg, Valid = False\<rparr>"

definition sample_decode_token :: "string \<Rightarrow> Token_jwt option" where
  "sample_decode_token t =
     map_of
       [(''admin.tok'', sample_token (SigningMethodHMAC ''HS256'') ''Admin'' ''admin'' 1900 ''s3cr3t''),
        (''bob.tok'', sample_token (SigningMethodHMAC ''HS256'') ''Bob'' ''user'' 1900 ''s3cr3t''),
        (''forged.tok'', sample_token (SigningMethodHMAC ''HS256'') ''Bob'' ''admin'' 1900 ''guess''),
        (''rsa.tok'', sample_token (SigningMethodRSA ''RS256'') ''Bob'' ''admin'' 1900 ''s3cr3t''),
        (''old.tok'', sample_token (SigningMethodHMAC ''HS256'') ''Bob'' ''user'' 900 ''s3cr3t'')] t"

definition sample_env :: env where
  "sample_env =
     \<lparr>JWT_SECRET = ''s3cr3t'',
      now = 1000,
      decode_token = sample_decode_token,
      signature_ok = (\<lambda>t key. Signature t = key),
      SignedString = (\<lambda>c key. Some ''signed''),
      decode_userRequest =
        map_of [(''name=Ann;email=ann@x.org'', \<lparr>req_Name = ''Ann'', req_Email = ''ann@x.org''\<rparr>)],
      decode_loginRequest =
        map_of [(''bob@x.org:hunter2'', \<lparr>login_Email = ''bob@x.org'', login_Password = ''hunter2''\<rparr>),
                (''bob@x.org:#hunter2'', \<lparr>login_Email = ''bob@x.org'', login_Password = ''#hunter2''\<rparr>)],
      CompareHashAndPassword = (\<lambda>h p. h = CHR ''#'' # p)\<rparr>"

definition sample_db :: db_state where
  "sample_db =
     \<lparr>users =
        [\<lparr>row_id = 1, row_name = ''Admin'', row_email = ''admin@x.org'',
          row_password = ''#root'', row_role = ''admin''\<rparr>,
         \<lparr>row_id = 2, row_name = ''Bob'', row_email = ''bob@x.org'',
          row_password = ''#hunter2'', row_role = ''user''\<rparr>],
      faults = [], executed = []\<rparr>"

definition sample_world :: world where
  "sample_world = \<lparr>W = [], DB = sample_db\<rparr>"

text \<open>A request for \<open>/users/{id}\<close> with the given path id, \<open>Authorization\<close> values and body.\<close>

definition sample_request :: "string \<Rightarrow> string list \<Rightarrow> string \<Rightarrow> request" where
  "sample_request i auth body =
     \<lparr>Header = (if auth = [] then [] else [(''Authorization'', auth)]),
      URLParams = [(''id'', i)], Body = body, Context = []\<rparr>"

text \<open>The request \<open>JWTAuthMiddleware\<close> hands to \<open>next\<close> for a verified token.\<close>

definition with_identity :: "request \<Rightarrow> string \<Rightarrow> string \<Rightarrow> request" where
  "with_identity r username role =
     r\<lparr>Context := WithValue (WithValue (Context r) ContextUsernameKey (IString username))
                    ContextRoleKey (IString role)\<rparr>"

text \<open>A rest of the chain that answers 403 itself, and one that deletes a user.\<close>

definition sample_forbidden :: HandlerError where
  "sample_forbidden =
     \<lparr>ErrStatus = 403,
      ErrMessage = \<lparr>Code = ''E403'', Message = ''Forbidden'', Detail = ''You are not an admin''\<rparr>\<rparr>"

definition sample_next :: ApiHandlerFunc where
  "sample_next r s = (Return (None, Some sample_forbidden), s)"

section \<open>The authentication middleware\<close>

lemma strings_Split_not_Nil: "strings_Split s c \<noteq> []"
  by (induction s) (auto split: list.splits)

lemma Bearer_header_not_empty:
  "strings_Split h CHR '' '' = [''Bearer'', tok] \<Longrightarrow> h \<noteq> []"
  by auto

lemma JWTAuthMiddleware_missing:
  "Header_Get (Header r) ''Authorization'' = [] \<Longrightarrow>
   JWTAuthMiddleware e next r s = (Return (None, Some (Unauthorized ''Missing token'')), s)"
  by (simp add: JWTAuthMiddleware_def Unauthorized_def)

lemma JWTAuthMiddleware_format:
  "Header_Get (Header r) ''Authorization'' \<noteq> [] \<Longrightarrow>
   length (strings_Split (Header_Get (Header r) ''Authorization'') CHR '' '') \<noteq> 2
     \<or> strings_Split (Header_Get (Header r) ''Authorization'') CHR '' '' ! 0 \<noteq> ''Bearer'' \<Longrightarrow>
   JWTAuthMiddleware e next r s = (Return (None, Some (Unauthorized ''Invalid token format'')), s)"
  by (simp add: JWTAuthMiddleware_def Unauthorized_def Let_def)

lemma JWTAuthMiddleware_invalid:
  "strings_Split (Header_Get (Header r) ''Authorization'') CHR '' '' = [''Bearer'', tok] \<Longrightarrow>
   snd (VerifyJwtToken e tok) = Some err \<Longrightarrow>
   JWTAuthMiddleware e next r s = (Return (None, Some (Unauthorized ''Invalid token'')), s)"
  using Bearer_header_not_empty [of "Header_Get (Header r) ''Authorization''" tok]
  by (cases "VerifyJwtToken e tok") (simp add: JWTAuthMiddleware_def Unauthorized_def Let_def)

text \<open>\<open>VerifyJwtToken\<close> accepts exactly the decodable HMAC tokens signed with the secret
  whose claims are valid now, and then returns their claims.\<close>

lemma VerifyJwtToken_None_iff:
  "snd (VerifyJwtToken e tok) = None \<longleftrightarrow>
   (\<exists>t. decode_token e tok = Some t \<and> (\<exists>alg. Method t = SigningMethodHMAC alg)
        \<and> signature_ok e t (JWT_SECRET e) \<and> validate_claims (now e) (Claims t) = None)"
  by (auto simp: VerifyJwtToken_def jwt_Parse_def keyFunc_def
           split: option.splits sum.splits SigningMethod.splits if_splits)

lemma VerifyJwtToken_accepts:
  "snd (VerifyJwtToken e tok) = None \<Longrightarrow>
   \<exists>t. decode_token e tok = Some t \<and> VerifyJwtToken e tok = (Some (Claims t), None)"
  by (auto simp: VerifyJwtToken_def jwt_Parse_def keyFunc_def
           split: option.splits sum.splits SigningMethod.splits if_splits)

lemma validate_claims_expired:
  "map_of c ''exp'' = Some (INumber ex) \<Longrightarrow> ex \<le> t \<Longrightarrow> validate_claims t c = Some ErrTokenExpired"
  by (simp add: validate_claims_def)

lemma VerifyJwtToken_rejects:
  assumes "decode_token e tok = Some t"
    and "\<not> signature_ok e t (JWT_SECRET e)
         \<or> (\<forall>alg. Method t \<noteq> SigningMethodHMAC alg)
         \<or> (\<exists>ex. map_of (Claims t) ''exp'' = Some (INumber ex) \<and> ex \<le> now e)"
  shows "\<exists>err. snd (VerifyJwtToken e tok) = Some err"
proof -
  have "snd (VerifyJwtToken e tok) \<noteq> None"
    using assms validate_claims_expired [of "Claims t" _ "now e"]
    by (auto simp: VerifyJwtToken_None_iff)
  then show ?thesis by auto
qed

text \<open>
  Claim C2. The authentication middleware is the specified state machine. For every
  request, environment, rest of the chain and world: when the request has no
  \<open>Authorization\<close> header the result is the failure 401 / E401 / "Missing token" (and so
  it is when \<open>Header.Get\<close> returns the empty string for a header with an empty value,
  which the code cannot tell from an absent one); when the
  header has a non-empty value that does not split at spaces into exactly two parts, or whose first
  part is not \<open>Bearer\<close>, the result is 401 / E401 / "Invalid token format"; when the header
  is \<open>Bearer\<close> and a token whose signature is wrong under the server's secret, whose
  signing method is not an HMAC method, or whose \<open>exp\<close> is not after the clock, and more
  generally whenever \<open>VerifyJwtToken\<close> returns an error, the result is
  401 / E401 / "Invalid token". In each case the world is returned as it was, whatever
  \<open>next\<close> is: the rest of the chain does not run.
\<close>

theorem JWTAuthMiddleware_state_machine:
  "(map_of (Header r) ''Authorization'' = None \<longrightarrow>
      JWTAuthMiddleware e next r s = (Return (None, Some (Unauthorized ''Missing token'')), s))
   \<and> (Header_Get (Header r) ''Authorization'' = [] \<longrightarrow>
      JWTAuthMiddleware e next r s = (Return (None, Some (Unauthorized ''Missing token'')), s))
   \<and> (Header_Get (Header r) ''Authorization'' \<noteq> []
        \<and> (length (strings_Split (Header_Get (Header r) ''Authorization'') CHR '' '') \<noteq> 2
            \<or> strings_Split (Header_Get (Header r) ''Authorization'') CHR '' '' ! 0 \<noteq> ''Bearer'') \<longrightarrow>
      JWTAuthMiddleware e next r s = (Return (None, Some (Unauthorized ''Invalid token format'')), s))
   \<and> (strings_Split (Header_Get (Header r) ''Authorization'') CHR '' '' = [''Bearer'', tok]
        \<and> decode_token e tok = Some t
        \<and> (\<not> signature_ok e t (JWT_SECRET e)
            \<or> (\<forall>alg. Method t \<noteq> SigningMethodHMAC alg)
            \<or> (\<exists>ex. map_of (Claims t) ''exp'' = Some (INumber ex) \<and> ex \<le> now e)) \<longrightarrow>
      JWTAuthMiddleware e next r s = (Return (None, Some (Unauthorized ''Invalid token'')), s))
   \<and> (strings_Split (Header_Get (Header r) ''Authorization'') CHR '' '' = [''Bearer'', tok]
        \<and> snd (VerifyJwtToken e tok) \<noteq> None \<longrightarrow>
      JWTAuthMiddleware e next r s = (Return (None, Some (Unauthorized ''Invalid token'')), s))"
proof (intro conjI impI)
  assume "map_of (Header r) ''Authorization'' = None"
  then have "Header_Get (Header r) ''Authorization'' = []"
    by (simp add: Header_Get_def)
  then show "JWTAuthMiddleware e next r s = (Return (None, Some (Unauthorized ''Missing token'')), s)"
    by (rule JWTAuthMiddleware_missing)
next
  assume "Header_Get (Header r) ''Authorization'' = []"
  then show "JWTAuthMiddleware e next r s = (Return (None, Some (Unauthorized ''Missing token'')), s)"
    by (rule JWTAuthMiddleware_missing)
next
  assume "Header_Get (Header r) ''Authorization'' \<noteq> []
        \<and> (length (strings_Split (Header_Get (Header r) ''Authorization'') CHR '' '') \<noteq> 2
            \<or> strings_Split (Header_Get (Header r) ''Authorization'') CHR '' '' ! 0 \<noteq> ''Bearer'')"
  then show "JWTAuthMiddleware e next r s = (Return (None, Some (Unauthorized ''Invalid token format'')), s)"
    using JWTAuthMiddleware_format by blast
next
  assume a: "strings_Split (Header_Get (Header r) ''Authorization'') CHR '' '' = [''Bearer'', tok]
        \<and> decode_token e tok = Some t
        \<and> (\<not> signature_ok e t (JWT_SECRET e)
            \<or> (\<forall>alg. Method t \<noteq> SigningMethodHMAC alg)
            \<or> (\<exists>ex. map_of (Claims t) ''exp'' = Some (INumber ex) \<and> ex \<le> now e))"
  then obtain err where "snd (VerifyJwtToken e tok) = Some err"
    using VerifyJwtToken_rejects [of e tok t] by blast
  with a show "JWTAuthMiddleware e next r s = (Return (None, Some (Unauthorized ''Invalid token'')), s)"
    using JWTAuthMiddleware_invalid by blast
next
  assume a: "strings_Split (Header_Get (Header r) ''Authorization'') CHR '' '' = [''Bearer'', tok]
        \<and> snd (VerifyJwtToken e tok) \<noteq> None"
  then obtain err where "snd (VerifyJwtToken e tok) = Some err" by auto
  with a show "JWTAuthMiddleware e next r s = (Return (None, Some (Unauthorized ''Invalid token'')), s)"
    using JWTAuthMiddleware_invalid by blast
qed

text \<open>Facts about the concrete environment, for running the model on it.\<close>

lemma sample_header_Get:
  "Header_Get (Header (sample_request i [v] b)) ''Authorization'' = v"
  by (simp add: sample_request_def Header_Get_def)

lemma sample_decode_simps:
  "decode_token sample_env ''admin.tok'' = Some (sample_token (SigningMethodHMAC ''HS256'') ''Admin'' ''admin'' 1900 ''s3cr3t'')"
  "decode_token sample_env ''bob.tok'' = Some (sample_token (SigningMethodHMAC ''HS256'') ''Bob'' ''user'' 1900 ''s3cr3t'')"
  "decode_token sample_env ''forged.tok'' = Some (sample_token (SigningMethodHMAC ''HS256'') ''Bob'' ''admin'' 1900 ''guess'')"
  "decode_token sample_env ''rsa.tok'' = Some (sample_token (SigningMethodRSA ''RS256'') ''Bob'' ''admin'' 1900 ''s3cr3t'')"
  "decode_token sample_env ''old.tok'' = Some (sample_token (SigningMethodHMAC ''HS256'') ''Bob'' ''user'' 900 ''s3cr3t'')"
  by (simp_all add: sample_env_def sample_decode_token_def)

lemma sample_env_simps:
  "JWT_SECRET sample_env = ''s3cr3t''" "now sample_env = 1000"
  "signature_ok sample_env t key = (Signature t = key)"
  by (simp_all add: sample_env_def)

lemma sample_token_simps:
  "Method (sample_token m u ro ex sg) = m"
  "Claims (sample_token m u ro ex sg) = [(''username'', IString u), (''role'', IString ro), (''exp'', INumber ex)]"
  "Signature (sample_token m u ro ex sg) = sg"
  "Valid (sample_token m u ro ex sg) = False"
  by (simp_all add: sample_token_def)

theorem JWTAuthMiddleware_state_machine_witness:
  "JWTAuthMiddleware sample_env sample_next (sample_request ''2'' [] []) sample_world
     = (Return (None, Some (Unauthorized ''Missing token'')), sample_world)
   \<and> JWTAuthMiddleware sample_env sample_next (sample_request ''2'' [[]] []) sample_world
     = (Return (None, Some (Unauthorized ''Missing token'')), sample_world)
   \<and> JWTAuthMiddleware sample_env sample_next (sample_request ''2'' [''Bearer  admin.tok''] []) sample_world
     = (Return (None, Some (Unauthorized ''Invalid token format'')), sample_world)
   \<and> JWTAuthMiddleware sample_env sample_next (sample_request ''2'' [''Token admin.tok''] []) sample_world
     = (Return (None, Some (Unauthorized ''Invalid token format'')), sample_world)
   \<and> JWTAuthMiddleware sample_env sample_next (sample_request ''2'' [''Bearer forged.tok''] []) sample_world
     = (Return (None, Some (Unauthorized ''Invalid token'')), sample_world)
   \<and> JWTAuthMiddleware sample_env sample_next (sample_request ''2'' [''Bearer rsa.tok''] []) sample_world
     = (Return (None, Some (Unauthorized ''Invalid token'')), sample_world)
   \<and> JWTAuthMiddleware sample_env sample_next (sample_request ''2'' [''Bearer old.tok''] []) sample_world
     = (Return (None, Some (Unauthorized ''Invalid token'')), sample_world)"
proof (intro conjI)
  show "JWTAuthMiddleware sample_env sample_next (sample_request ''2'' [] []) sample_world
     = (Return (None, Some (Unauthorized ''Missing token'')), sample_world)"
    using JWTAuthMiddleware_state_machine
      [where r = "sample_request ''2'' [] []" and e = sample_env and s = sample_world
         and ?next = sample_next]
    by (simp add: sample_request_def)
  show "JWTAuthMiddleware sample_env sample_next (sample_request ''2'' [[]] []) sample_world
     = (Return (None, Some (Unauthorized ''Missing token'')), sample_world)"
    using JWTAuthMiddleware_state_machine
      [where r = "sample_request ''2'' [[]] []" and e = sample_env and s = sample_world
         and ?next = sample_next]
    by (simp add: sample_header_Get)
  show "JWTAuthMiddleware sample_env sample_next (sample_request ''2'' [''Bearer  admin.tok''] []) sample_world
     = (Return (None, Some (Unauthorized ''Invalid token format'')), sample_world)"
    using JWTAuthMiddleware_state_machine
      [where r = "sample_request ''2'' [''Bearer  admin.tok''] []" and e = sample_env
         and s = sample_world and ?next = sample_next]
    by (simp add: sample_header_Get)
  show "JWTAuthMiddleware sample_env sample_next (sample_request ''2'' [''Token admin.tok''] []) sample_world
     = (Return (None, Some (Unauthorized ''Invalid token format'')), sample_world)"
    using JWTAuthMiddleware_state_machine
      [where r = "sample_request ''2'' [''Token admin.tok''] []" and e = sample_env
         and s = sample_world and ?next = sample_next]
    by (simp add: sample_header_Get)
  show "JWTAuthMiddleware sample_env sample_next (sample_request ''2'' [''Bearer forged.tok''] []) sample_world
     = (Return (None, Some (Unauthorized ''Invalid token'')), sample_world)"
    using JWTAuthMiddleware_state_machine
      [where r = "sample_request ''2'' [''Bearer forged.tok''] []" and e = sample_env
         and s = sample_world and ?next = sample_next and tok = "''forged.tok''"
         and t = "sample_token (SigningMethodHMAC ''HS256'') ''Bob'' ''admin'' 1900 ''guess''"]
    by (simp add: sample_header_Get sample_decode_simps sample_env_simps sample_token_simps)
  show "JWTAuthMiddleware sample_env sample_next (sample_request ''2'' [''Bearer rsa.tok''] []) sample_world
     = (Return (None, Some (Unauthorized ''Invalid token'')), sample_world)"
    using JWTAuthMiddleware_state_machine
      [where r = "sample_request ''2'' [''Bearer rsa.tok''] []" and e = sample_env
         and s = sample_world and ?next = sample_next and tok = "''rsa.tok''"
         and t = "sample_token (SigningMethodRSA ''RS256'') ''Bob'' ''admin'' 1900 ''s3cr3t''"]
    by (simp add: sample_header_Get sample_decode_simps sample_env_simps sample_token_simps)
  show "JWTAuthMiddleware sample_env sample_next (sample_request ''2'' [''Bearer old.tok''] []) sample_world
     = (Return (None, Some (Unauthorized ''Invalid token'')), sample_world)"
    using JWTAuthMiddleware_state_machine
      [where r = "sample_request ''2'' [''Bearer old.tok''] []" and e = sample_env
         and s = sample_world and ?next = sample_next and tok = "''old.tok''"
         and t = "sample_token (SigningMethodHMAC ''HS256'') ''Bob'' ''user'' 900 ''s3cr3t''"]
    by (simp add: sample_header_Get sample_decode_simps sample_env_simps sample_token_simps)
qed

section \<open>What the middlewares return when they pass a request on\<close>

lemma JWTAuthMiddleware_accepted:
  assumes "strings_Split (Header_Get (Header r) ''Authorization'') CHR '' '' = [''Bearer'', tok]"
    and "VerifyJwtToken e tok = (Some c, None)"
    and "map_of c ''username'' = Some (IString username)"
    and "map_of c ''role'' = Some (IString role)"
  shows "JWTAuthMiddleware e next r s =
           (case next (with_identity r username role) s of
              (Panic, s') \<Rightarrow> (Panic, s')
            | (Return res, s') \<Rightarrow> (Return (Some \<lparr>Status = 200, Data = None\<rparr>, None), s'))"
  using assms Bearer_header_not_empty [OF assms(1)]
  by (simp add: JWTAuthMiddleware_def Let_def claim_string_def with_identity_def)

lemma sample_Verify_admin:
  "VerifyJwtToken sample_env ''admin.tok'' =
     (Some [(''username'', IString ''Admin''), (''role'', IString ''admin''), (''exp'', INumber 1900)], None)"
  by (simp add: VerifyJwtToken_def jwt_Parse_def keyFunc_def validate_claims_def
        sample_decode_simps sample_env_simps sample_token_simps)

lemma sample_Verify_bob:
  "VerifyJwtToken sample_env ''bob.tok'' =
     (Some [(''username'', IString ''Bob''), (''role'', IString ''user''), (''exp'', INumber 1900)], None)"
  by (simp add: VerifyJwtToken_def jwt_Parse_def keyFunc_def validate_claims_def
        sample_decode_simps sample_env_simps sample_token_simps)

lemma sample_JWTAuthMiddleware_admin:
  "JWTAuthMiddleware sample_env next (sample_request i [''Bearer admin.tok''] b) s =
     (case next (with_identity (sample_request i [''Bearer admin.tok''] b) ''Admin'' ''admin'') s of
        (Panic, s') \<Rightarrow> (Panic, s')
      | (Return res, s') \<Rightarrow> (Return (Some \<lparr>Status = 200, Data = None\<rparr>, None), s'))"
  by (rule JWTAuthMiddleware_accepted [where tok = "''admin.tok''"
        and c = "[(''username'', IString ''Admin''), (''role'', IString ''admin''), (''exp'', INumber 1900)]"])
     (simp_all add: sample_header_Get sample_Verify_admin)

lemma sample_JWTAuthMiddleware_bob:
  "JWTAuthMiddleware sample_env next (sample_request i [''Bearer bob.tok''] b) s =
     (case next (with_identity (sample_request i [''Bearer bob.tok''] b) ''Bob'' ''user'') s of
        (Panic, s') \<Rightarrow> (Panic, s')
      | (Return res, s') \<Rightarrow> (Return (Some \<lparr>Status = 200, Data = None\<rparr>, None), s'))"
  by (rule JWTAuthMiddleware_accepted [where tok = "''bob.tok''"
        and c = "[(''username'', IString ''Bob''), (''role'', IString ''user''), (''exp'', INumber 1900)]"])
     (simp_all add: sample_header_Get sample_Verify_bob)

lemma OnlyAdminMiddleware_admin:
  "ctx_Value (Context r) ContextRoleKey = Some (IString ''admin'') \<Longrightarrow>
   OnlyAdminMiddleware next r s = next r s"
  by (simp add: OnlyAdminMiddleware_def)

lemma OnlyAdminMiddleware_other:
  "ctx_Value (Context r) ContextRoleKey = Some (IString role) \<Longrightarrow> role \<noteq> ''admin'' \<Longrightarrow>
   OnlyAdminMiddleware next r s =
     (Return (None, Some \<lparr>ErrStatus = 403,
        ErrMessage = \<lparr>Code = ''E403'', Message = ''Forbidden'',
                      Detail = ''You are not an admin''\<rparr>\<rparr>), s)"
  by (simp add: OnlyAdminMiddleware_def)

lemma with_identity_role:
  "ctx_Value (Context (with_identity r username role)) ContextRoleKey = Some (IString role)"
  by (simp add: with_identity_def ctx_Value_def WithValue_def)


lemma sample_URLParam:
  "URLParam (sample_request i a b) ''id'' = i"
  "URLParam (with_identity r u ro) k = URLParam r k"
  by (simp_all add: sample_request_def URLParam_def with_identity_def)

lemma Atoi_samples: "Atoi ''2'' = Some 2" "Atoi ''42'' = Some 42"
  by (simp_all add: Atoi_def digit_of_def)

lemma deleteUser_no_fault:
  assumes "Atoi (URLParam r ''id'') = Some i" and "faults (DB s) = []"
  shows "deleteUser r s =
           (Return (Some \<lparr>Status = 204, Data = None\<rparr>, None),
            s\<lparr>DB := (DB s)\<lparr>executed := executed (DB s) @ [DELETE_by_id i],
                            users := filter (\<lambda>u. row_id u \<noteq> i) (users (DB s))\<rparr>\<rparr>)"
  using assms by (simp add: deleteUser_def Exec_delete_def begin_stmt_def)

lemma sample_world_simps:
  "DB sample_world = sample_db" "W sample_world = []"
  "DB (w_call c s) = DB s" "W (w_call c s) = W s @ [c]"
  "faults sample_db = []" "executed sample_db = []"
  by (simp_all add: sample_world_def sample_db_def w_call_def)

text \<open>
  Claim C1 (the code departs from it). The claim: a middleware that passes a request on
  returns the envelope pair of \<open>next\<close>, unchanged. \<open>OnlyAdminMiddleware\<close> does
  (\<open>OnlyAdminMiddleware_admin\<close>). \<open>JWTAuthMiddleware\<close> does not: for the request
  \<open>PUT /users/2\<close> with the verified token \<open>admin.tok\<close> and a rest of the chain that answers
  with the failure 403, it returns the success envelope \<open>{200, nil}\<close>; and for the rest of
  the chain that \<open>MiddlewareAdapter\<close> really passes in, which returns \<open>nil, nil\<close>, it
  returns \<open>{200, nil}\<close> as well.
\<close>

theorem JWTAuthMiddleware_discards_envelope_of_next:
  "JWTAuthMiddleware sample_env sample_next (sample_request ''2'' [''Bearer admin.tok''] []) sample_world
     = (Return (Some \<lparr>Status = 200, Data = None\<rparr>, None), sample_world)
   \<and> sample_next (with_identity (sample_request ''2'' [''Bearer admin.tok''] []) ''Admin'' ''admin'') sample_world
     = (Return (None, Some sample_forbidden), sample_world)
   \<and> fst (JWTAuthMiddleware sample_env
            (MiddlewareAdapter_handler (ApiHandlerAdapter deleteUser))
            (sample_request ''2'' [''Bearer admin.tok''] []) sample_world)
     = Return (Some \<lparr>Status = 200, Data = None\<rparr>, None)
   \<and> fst (MiddlewareAdapter_handler (ApiHandlerAdapter deleteUser)
            (with_identity (sample_request ''2'' [''Bearer admin.tok''] []) ''Admin'' ''admin'')
            sample_world)
     = Return (None, None)"
proof (intro conjI)
  show "JWTAuthMiddleware sample_env sample_next (sample_request ''2'' [''Bearer admin.tok''] []) sample_world
     = (Return (Some \<lparr>Status = 200, Data = None\<rparr>, None), sample_world)"
    by (simp add: sample_JWTAuthMiddleware_admin sample_next_def)
  show "sample_next (with_identity (sample_request ''2'' [''Bearer admin.tok''] []) ''Admin'' ''admin'') sample_world
     = (Return (None, Some sample_forbidden), sample_world)"
    by (simp add: sample_next_def)
  have d: "deleteUser (with_identity (sample_request ''2'' [''Bearer admin.tok''] []) ''Admin'' ''admin'')
             (w_call (Header_Set ''Content-Type'' ''application/json'') sample_world)
           = (Return (Some \<lparr>Status = 204, Data = None\<rparr>, None),
              (w_call (Header_Set ''Content-Type'' ''application/json'') sample_world)
                \<lparr>DB := sample_db\<lparr>executed := [DELETE_by_id 2],
                       users := filter (\<lambda>u. row_id u \<noteq> 2) (users sample_db)\<rparr>\<rparr>)"
    using deleteUser_no_fault [where i = 2
        and r = "with_identity (sample_request ''2'' [''Bearer admin.tok''] []) ''Admin'' ''admin''"
        and s = "w_call (Header_Set ''Content-Type'' ''application/json'') sample_world"]
    by (simp add: sample_URLParam Atoi_samples sample_world_simps)
  have h: "MiddlewareAdapter_handler (ApiHandlerAdapter deleteUser)
            (with_identity (sample_request ''2'' [''Bearer admin.tok''] []) ''Admin'' ''admin'')
            sample_world
          = (Return (None, None),
             w_call (Encode None) (w_call (WriteHeader 204)
               ((w_call (Header_Set ''Content-Type'' ''application/json'') sample_world)
                  \<lparr>DB := sample_db\<lparr>executed := [DELETE_by_id 2],
                         users := filter (\<lambda>u. row_id u \<noteq> 2) (users sample_db)\<rparr>\<rparr>)))"
    by (simp add: MiddlewareAdapter_handler_def ApiHandlerAdapter_def d)
  then show "fst (MiddlewareAdapter_handler (ApiHandlerAdapter deleteUser)
            (with_identity (sample_request ''2'' [''Bearer admin.tok''] []) ''Admin'' ''admin'')
            sample_world)
     = Return (None, None)"
    by simp
  from h show "fst (JWTAuthMiddleware sample_env
            (MiddlewareAdapter_handler (ApiHandlerAdapter deleteUser))
            (sample_request ''2'' [''Bearer admin.tok''] []) sample_world)
     = Return (Some \<lparr>Status = 200, Data = None\<rparr>, None)"
    by (simp add: sample_JWTAuthMiddleware_admin)
qed

text \<open>In general: whatever envelope \<open>next\<close> returns for a verified token is dropped.\<close>

lemma JWTAuthMiddleware_never_returns_envelope_of_next:
  assumes "strings_Split (Header_Get (Header r) ''Authorization'') CHR '' '' = [''Bearer'', tok]"
    and "VerifyJwtToken e tok = (Some c, None)"
    and "map_of c ''username'' = Some (IString username)"
    and "map_of c ''role'' = Some (IString role)"
    and "next (with_identity r username role) s = (Return res, s')"
  shows "JWTAuthMiddleware e next r s = (Return (Some \<lparr>Status = 200, Data = None\<rparr>, None), s')"
  using JWTAuthMiddleware_accepted [OF assms(1-4), of "next" s] assms(5) by simp

theorem JWTAuthMiddleware_discards_envelope_of_next_witness:
  "fst (JWTAuthMiddleware sample_env sample_next (sample_request ''2'' [''Bearer admin.tok''] []) sample_world)
     \<noteq> fst (sample_next (with_identity (sample_request ''2'' [''Bearer admin.tok''] []) ''Admin'' ''admin'') sample_world)"
  using JWTAuthMiddleware_discards_envelope_of_next by simp

section \<open>The authorization middleware\<close>

lemma sample_role_bob:
  "ctx_Value (Context (with_identity (sample_request ''2'' [''Bearer bob.tok''] []) ''Bob'' ''user''))
     ContextRoleKey = Some (IString ''user'')"
  by (rule with_identity_role)

text \<open>
  Claim C5, as stated: for a role other than "admin" the middleware returns the failure
  403 / E403 / "not authorized". It fails on the text: for the request of the user Bob
  (role "user") the failure returned has the message "Forbidden" and the detail
  "You are not an admin"; neither is "not authorized".
\<close>

theorem OnlyAdminMiddleware_message_counterexample:
  "OnlyAdminMiddleware sample_next
     (with_identity (sample_request ''2'' [''Bearer bob.tok''] []) ''Bob'' ''user'') sample_world
   = (Return (None, Some \<lparr>ErrStatus = 403,
        ErrMessage = \<lparr>Code = ''E403'', Message = ''Forbidden'',
                      Detail = ''You are not an admin''\<rparr>\<rparr>), sample_world)
   \<and> ''Forbidden'' \<noteq> ''not authorized'' \<and> ''You are not an admin'' \<noteq> ''not authorized''"
  using OnlyAdminMiddleware_other [OF sample_role_bob, of sample_next sample_world] by simp

text \<open>
  Claim C5, amended. For every request whose context holds a role under the key
  \<open>ContextRoleKey\<close>: when the role is not "admin" the middleware returns the failure
  403 / E403 with the message "Forbidden" and the detail "You are not an admin", and
  returns the world as it was, whatever \<open>next\<close> is (\<open>next\<close> does not run); when the role
  is "admin" its result is the result of \<open>next\<close> on the same request and world.
\<close>

theorem OnlyAdminMiddleware_gate:
  assumes "ctx_Value (Context r) ContextRoleKey = Some (IString role)"
  shows "(role \<noteq> ''admin'' \<longrightarrow>
            OnlyAdminMiddleware next r s =
              (Return (None, Some \<lparr>ErrStatus = 403,
                 ErrMessage = \<lparr>Code = ''E403'', Message = ''Forbidden'',
                               Detail = ''You are not an admin''\<rparr>\<rparr>), s))
         \<and> (role = ''admin'' \<longrightarrow> OnlyAdminMiddleware next r s = next r s)"
  using assms by (simp add: OnlyAdminMiddleware_def)

theorem OnlyAdminMiddleware_gate_witness:
  "OnlyAdminMiddleware (MiddlewareAdapter_handler (ApiHandlerAdapter deleteUser))
     (with_identity (sample_request ''2'' [''Bearer bob.tok''] []) ''Bob'' ''user'') sample_world
   = (Return (None, Some \<lparr>ErrStatus = 403,
        ErrMessage = \<lparr>Code = ''E403'', Message = ''Forbidden'',
                      Detail = ''You are not an admin''\<rparr>\<rparr>), sample_world)
   \<and> OnlyAdminMiddleware sample_next
        (with_identity (sample_request ''2'' [''Bearer admin.tok''] []) ''Admin'' ''admin'') sample_world
      = sample_next
        (with_identity (sample_request ''2'' [''Bearer admin.tok''] []) ''Admin'' ''admin'') sample_world"
  using OnlyAdminMiddleware_gate [OF sample_role_bob,
          of "MiddlewareAdapter_handler (ApiHandlerAdapter deleteUser)" sample_world]
        OnlyAdminMiddleware_gate [OF with_identity_role
          [of "sample_request ''2'' [''Bearer admin.tok''] []" "''Admin''" "''admin''"],
          of sample_next sample_world]
  by simp

section \<open>Protected routes reject before the handler runs\<close>

lemma JWTAuthMiddleware_rejects:
  assumes "\<not> valid_Authorization e r"
  shows "\<exists>d \<in> {''Missing token'', ''Invalid token format'', ''Invalid token''}.
           \<forall>next s. JWTAuthMiddleware e next r s = (Return (None, Some (Unauthorized d)), s)"
proof (cases "Header_Get (Header r) ''Authorization'' = []")
  case True
  then show ?thesis using JWTAuthMiddleware_missing by blast
next
  case ne: False
  let ?parts = "strings_Split (Header_Get (Header r) ''Authorization'') CHR '' ''"
  show ?thesis
  proof (cases "length ?parts \<noteq> 2 \<or> ?parts ! 0 \<noteq> ''Bearer''")
    case True
    with ne show ?thesis using JWTAuthMiddleware_format by blast
  next
    case False
    then have len: "length ?parts = 2" and b: "?parts ! 0 = ''Bearer''" by auto
    from len obtain a tok where p: "?parts = [a, tok]"
      by (cases ?parts; simp) (metis length_0_conv Suc_length_conv)
    with b have p': "?parts = [''Bearer'', tok]" by simp
    with assms have "snd (VerifyJwtToken e tok) \<noteq> None"
      by (simp add: valid_Authorization_def Let_def)
    then obtain err where "snd (VerifyJwtToken e tok) = Some err" by auto
    with p' show ?thesis using JWTAuthMiddleware_invalid by blast
  qed
qed

lemma MiddlewareAdapter_failure:
  assumes "mw (MiddlewareAdapter_handler inner) r
             (w_call (Header_Set ''Content-Type'' ''application/json'') s)
           = (Return (None, Some err), w_call (Header_Set ''Content-Type'' ''application/json'') s)"
  shows "MiddlewareAdapter mw inner r s = (Return (), s\<lparr>W := W s @ rejection err\<rparr>)"
  using assms by (simp add: MiddlewareAdapter_def rejection_def w_call_def)

text \<open>
  Claim C4. For every request without a valid \<open>Authorization\<close> header, every handler
  \<open>inner\<close> wrapped in \<open>MiddlewareAdapter(JWTAuthMiddleware)\<close> and every world: the calls on
  the response writer are the content type, the status 401 and the error E401 (with one
  of the three details), and nothing else of the world changes. The equation holds for
  every \<open>inner\<close>, also one that would write to the store or panic, so \<open>inner\<close> is not
  invoked and the store is as it was. Every route of \<open>UserRouter\<close> has this shape; the two
  routes modelled here are instances.
\<close>

theorem protected_route_rejects_before_handler:
  assumes "\<not> valid_Authorization e r"
  shows "\<exists>d \<in> {''Missing token'', ''Invalid token format'', ''Invalid token''}.
           (\<forall>inner s. MiddlewareAdapter (JWTAuthMiddleware e) inner r s
              = (Return (), s\<lparr>W := W s @ rejection (Unauthorized d)\<rparr>))
           \<and> (\<forall>s. route_PUT_id e r s = (Return (), s\<lparr>W := W s @ rejection (Unauthorized d)\<rparr>))
           \<and> (\<forall>s. route_DELETE_id e r s = (Return (), s\<lparr>W := W s @ rejection (Unauthorized d)\<rparr>))"
proof -
  obtain d where d: "d \<in> {''Missing token'', ''Invalid token format'', ''Invalid token''}"
    and j: "\<And>next s. JWTAuthMiddleware e next r s = (Return (None, Some (Unauthorized d)), s)"
    using JWTAuthMiddleware_rejects [OF assms] by blast
  have m: "MiddlewareAdapter (JWTAuthMiddleware e) inner r s
             = (Return (), s\<lparr>W := W s @ rejection (Unauthorized d)\<rparr>)" for inner s
    by (rule MiddlewareAdapter_failure) (rule j)
  from d m show ?thesis
    unfolding route_PUT_id_def route_DELETE_id_def logSomething_def by blast
qed

lemma sample_forged_invalid:
  "\<not> valid_Authorization sample_env (sample_request ''2'' [''Bearer forged.tok''] b)"
  by (simp add: valid_Authorization_def sample_header_Get VerifyJwtToken_None_iff
        sample_decode_simps sample_env_simps sample_token_simps)

theorem protected_route_rejects_before_handler_witness:
  "\<not> valid_Authorization sample_env
        (sample_request ''2'' [''Bearer forged.tok''] ''name=Ann;email=ann@x.org'')
   \<and> DB (snd (route_PUT_id sample_env
         (sample_request ''2'' [''Bearer forged.tok''] ''name=Ann;email=ann@x.org'') sample_world))
       = sample_db
   \<and> fst (route_PUT_id sample_env
         (sample_request ''2'' [''Bearer forged.tok''] ''name=Ann;email=ann@x.org'') sample_world)
       = Return ()
   \<and> count_WriteHeader (W (snd (route_PUT_id sample_env
         (sample_request ''2'' [''Bearer forged.tok''] ''name=Ann;email=ann@x.org'') sample_world)))
       = 1"
proof -
  obtain d where
    "route_PUT_id sample_env
       (sample_request ''2'' [''Bearer forged.tok''] ''name=Ann;email=ann@x.org'') sample_world
     = (Return (), sample_world\<lparr>W := W sample_world @ rejection (Unauthorized d)\<rparr>)"
    using protected_route_rejects_before_handler [OF sample_forged_invalid,
            of "''name=Ann;email=ann@x.org''"]
    by blast
  then show ?thesis
    using sample_forged_invalid [of "''name=Ann;email=ann@x.org''"]
    by (simp add: sample_world_simps rejection_def count_WriteHeader_def)
qed

section \<open>The ownership test of updateUser\<close>

text \<open>The bindings \<open>JWTAuthMiddleware\<close> adds use typed keys: a lookup under a plain
  string key sees through them.\<close>

lemma typed_key_invisible:
  "ctx_Value (Context (with_identity r username role)) (stringKey k)
     = ctx_Value (Context r) (stringKey k)"
  by (simp add: with_identity_def ctx_Value_def WithValue_def ContextUsernameKey_def
        ContextRoleKey_def)

lemma QueryRow_select_by_id_found:
  assumes "faults db = [] \<or> hd (faults db) = None"
    and "find (\<lambda>u. row_id u = i) (users db) = Some u"
  shows "QueryRow_select_by_id i db =
           (Inr u, db\<lparr>faults := tl (faults db), executed := executed db @ [SELECT_id_name_by_id i]\<rparr>)"
  using assms
  by (cases "faults db") (auto simp: QueryRow_select_by_id_def begin_stmt_def)

lemma find_row_id: "find (\<lambda>u. row_id u = i) us = Some u \<Longrightarrow> row_id u = i"
  by (auto simp: find_Some_iff)

lemma updateUser_forbidden:
  assumes "ctx_Value (Context r) (stringKey ''role'') \<noteq> Some (IString ''admin'')"
    and "Atoi (URLParam r ''id'') = Some i"
    and "decode_userRequest e (Body r) = Some req"
    and "req_Name req \<noteq> []" and "req_Email req \<noteq> []"
    and "faults (DB s) = [] \<or> hd (faults (DB s)) = None"
    and "find (\<lambda>u. row_id u = i) (users (DB s)) = Some u"
  shows "updateUser e r s =
             (Return (None, Some \<lparr>ErrStatus = 403,
                ErrMessage = \<lparr>Code = ''E403'', Message = ''Forbidden'',
                  Detail = ''You are no authorized to update another user than yourself''\<rparr>\<rparr>),
              s\<lparr>DB := (DB s)\<lparr>faults := tl (faults (DB s)),
                              executed := executed (DB s) @ [SELECT_id_name_by_id i]\<rparr>\<rparr>)"
  using assms(1-5) QueryRow_select_by_id_found [OF assms(6,7)]
  by (simp add: updateUser_def)

lemma QueryRow_select_by_id_users:
  "users (snd (QueryRow_select_by_id i db)) = users db"
  by (auto simp: QueryRow_select_by_id_def begin_stmt_def split: list.splits option.splits)

lemma QueryRow_select_by_id_executed:
  "executed (snd (QueryRow_select_by_id i db)) = executed db @ [SELECT_id_name_by_id i]"
  by (auto simp: QueryRow_select_by_id_def begin_stmt_def split: list.splits option.splits)

text \<open>Without the plain key bound to "admin", no request at all reaches the UPDATE.\<close>

lemma updateUser_never_updates:
  assumes "ctx_Value (Context r) (stringKey ''role'') \<noteq> Some (IString ''admin'')"
  shows "users (DB (snd (updateUser e r s))) = users (DB s)
         \<and> (executed (DB (snd (updateUser e r s))) = executed (DB s)
             \<or> (\<exists>i. executed (DB (snd (updateUser e r s))) = executed (DB s) @ [SELECT_id_name_by_id i]))
         \<and> (\<forall>sc. fst (updateUser e r s) \<noteq> Return (Some sc, None))"
proof -
  have "users (DB (snd (updateUser e r s))) = users (DB s)"
    using assms QueryRow_select_by_id_users
    by (auto simp: updateUser_def Let_def split: option.splits prod.splits sum.splits)
       (metis snd_conv)+
  moreover have "executed (DB (snd (updateUser e r s))) = executed (DB s)
             \<or> (\<exists>i. executed (DB (snd (updateUser e r s))) = executed (DB s) @ [SELECT_id_name_by_id i])"
    using assms QueryRow_select_by_id_executed
    by (auto simp: updateUser_def Let_def split: option.splits prod.splits sum.splits)
       (metis snd_conv)+
  moreover have "\<forall>sc. fst (updateUser e r s) \<noteq> Return (Some sc, None)"
    using assms
    by (auto simp: updateUser_def Let_def split: option.splits prod.splits sum.splits)
  ultimately show ?thesis by blast
qed

text \<open>The UPDATE is reachable only through the plain key: were "role" bound to "admin"
  under it, the same request would update the record and be answered 200.\<close>

lemma updateUser_with_plain_key:
  assumes "ctx_Value (Context r) (stringKey ''role'') = Some (IString ''admin'')"
    and "Atoi (URLParam r ''id'') = Some i"
    and "decode_userRequest e (Body r) = Some req"
    and "req_Name req \<noteq> []" and "req_Email req \<noteq> []"
    and "faults (DB s) = []"
    and "find (\<lambda>u. row_id u = i) (users (DB s)) = Some u"
  shows "updateUser e r s =
           (Return (Some \<lparr>Status = 200,
              Data = Some (UserData \<lparr>ID = i, Name = req_Name req, Email = req_Email req,
                                     Role = []\<rparr>)\<rparr>, None),
            s\<lparr>DB := (DB s)
                 \<lparr>users := map (\<lambda>v. if row_id v = i
                                      then v\<lparr>row_name := req_Name req, row_email := req_Email req\<rparr>
                                      else v) (users (DB s)),
                  executed := executed (DB s) @ [SELECT_id_name_by_id i,
                     UPDATE_name_email_by_id (req_Name req) (req_Email req) i]\<rparr>\<rparr>)"
  using assms find_row_id [OF assms(7)]
  by (simp add: updateUser_def QueryRow_select_by_id_def QueryRow_update_def begin_stmt_def)

text \<open>
  Claim C10. Take any request whose context does not bind the plain string key "role" to
  the string "admin" (the server and the router put no plain string keys into a context;
  in this program only \<open>JWTAuthMiddleware\<close> stores values, under its typed keys), with a
  path id that parses, a body that decodes to a non-empty name and email, and a store
  whose SELECT does not fail and finds the target. Then for every username and role that
  \<open>JWTAuthMiddleware\<close> may attach, "admin" included: the lookup under the plain key "role"
  sees what it saw before the identity was attached; the fetched record's id is the path
  id; and \<open>updateUser\<close> returns the failure 403, having executed the SELECT and nothing
  else, so the UPDATE is never sent.
\<close>

theorem updateUser_always_forbidden:
  assumes "ctx_Value (Context r) (stringKey ''role'') \<noteq> Some (IString ''admin'')"
    and "Atoi (URLParam r ''id'') = Some i"
    and "decode_userRequest e (Body r) = Some req"
    and "req_Name req \<noteq> []" and "req_Email req \<noteq> []"
    and "faults (DB s) = [] \<or> hd (faults (DB s)) = None"
    and "find (\<lambda>u. row_id u = i) (users (DB s)) = Some u"
  shows "ctx_Value (Context (with_identity r username role)) (stringKey ''role'')
           = ctx_Value (Context r) (stringKey ''role'')
         \<and> row_id u = i
         \<and> updateUser e (with_identity r username role) s =
             (Return (None, Some \<lparr>ErrStatus = 403,
                ErrMessage = \<lparr>Code = ''E403'', Message = ''Forbidden'',
                  Detail = ''You are no authorized to update another user than yourself''\<rparr>\<rparr>),
              s\<lparr>DB := (DB s)\<lparr>faults := tl (faults (DB s)),
                              executed := executed (DB s) @ [SELECT_id_name_by_id i]\<rparr>\<rparr>)"
proof (intro conjI)
  show k: "ctx_Value (Context (with_identity r username role)) (stringKey ''role'')
           = ctx_Value (Context r) (stringKey ''role'')"
    by (rule typed_key_invisible)
  show "row_id u = i" using assms(7) by (rule find_row_id)
  have b: "Body (with_identity r username role) = Body r"
    by (simp add: with_identity_def)
  show "updateUser e (with_identity r username role) s =
             (Return (None, Some \<lparr>ErrStatus = 403,
                ErrMessage = \<lparr>Code = ''E403'', Message = ''Forbidden'',
                  Detail = ''You are no authorized to update another user than yourself''\<rparr>\<rparr>),
              s\<lparr>DB := (DB s)\<lparr>faults := tl (faults (DB s)),
                              executed := executed (DB s) @ [SELECT_id_name_by_id i]\<rparr>\<rparr>)"
    using assms k
    by (intro updateUser_forbidden [where req = req and u = u]) (simp_all add: sample_URLParam b)
qed

lemma sample_put_facts:
  "ctx_Value (Context (sample_request i a b)) k = None"
  "Body (sample_request i a b) = b"
  "Body (with_identity r u ro) = Body r"
  "decode_userRequest sample_env ''name=Ann;email=ann@x.org''
     = Some \<lparr>req_Name = ''Ann'', req_Email = ''ann@x.org''\<rparr>"
  "find (\<lambda>u. row_id u = 2) (users sample_db)
     = Some \<lparr>row_id = 2, row_name = ''Bob'', row_email = ''bob@x.org'',
             row_password = ''#hunter2'', row_role = ''user''\<rparr>"
  "find (\<lambda>u. row_id u = 42) (users sample_db) = None"
  by (simp_all add: sample_request_def ctx_Value_def with_identity_def sample_env_def sample_db_def)

theorem updateUser_always_forbidden_witness:
  "updateUser sample_env
     (with_identity (sample_request ''2'' [''Bearer admin.tok''] ''name=Ann;email=ann@x.org'')
        ''Admin'' ''admin'') sample_world
   = (Return (None, Some \<lparr>ErrStatus = 403,
        ErrMessage = \<lparr>Code = ''E403'', Message = ''Forbidden'',
          Detail = ''You are no authorized to update another user than yourself''\<rparr>\<rparr>),
      sample_world\<lparr>DB := sample_db\<lparr>faults := [], executed := [SELECT_id_name_by_id 2]\<rparr>\<rparr>)"
  using updateUser_always_forbidden
    [where r = "sample_request ''2'' [''Bearer admin.tok''] ''name=Ann;email=ann@x.org''"
       and e = sample_env and s = sample_world and i = 2
       and req = "\<lparr>req_Name = ''Ann'', req_Email = ''ann@x.org''\<rparr>"
       and u = "\<lparr>row_id = 2, row_name = ''Bob'', row_email = ''bob@x.org'',
                row_password = ''#hunter2'', row_role = ''user''\<rparr>"
       and username = "''Admin''" and role = "''admin''"]
  by (simp add: sample_put_facts sample_URLParam Atoi_samples sample_world_simps)

section \<open>What the adapters write\<close>

lemma ApiHandlerAdapter_failure:
  assumes "handler r (w_call (Header_Set ''Content-Type'' ''application/json'') s)
             = (Return (None, Some err), s')"
  shows "ApiHandlerAdapter handler r s =
           (Return (), s'\<lparr>W := W s' @ [WriteHeader (ErrStatus err),
                                      Encode (Some (ErrorData (ErrMessage err)))]\<rparr>)"
  using assms by (simp add: ApiHandlerAdapter_def w_call_def)

lemma ApiHandlerAdapter_success:
  assumes "handler r (w_call (Header_Set ''Content-Type'' ''application/json'') s)
             = (Return (Some sc, None), s')"
  shows "ApiHandlerAdapter handler r s =
           (Return (), s'\<lparr>W := W s' @ [WriteHeader (Status sc), Encode (Data sc)]\<rparr>)"
  using assms by (simp add: ApiHandlerAdapter_def w_call_def)

text \<open>
  A verified token through \<open>MiddlewareAdapter(JWTAuthMiddleware)\<close>: once the rest of the
  chain has returned, the adapter writes the status 200.
\<close>

lemma MiddlewareAdapter_JWTAuthMiddleware_accepted:
  assumes "strings_Split (Header_Get (Header r) ''Authorization'') CHR '' '' = [''Bearer'', tok]"
    and "VerifyJwtToken e tok = (Some c, None)"
    and "map_of c ''username'' = Some (IString username)"
    and "map_of c ''role'' = Some (IString role)"
    and "inner (with_identity r username role)
           (w_call (Header_Set ''Content-Type'' ''application/json'') s) = (Return u, s')"
  shows "MiddlewareAdapter (JWTAuthMiddleware e) inner r s
           = (Return (), s'\<lparr>W := W s' @ [WriteHeader 200]\<rparr>)"
proof -
  have "MiddlewareAdapter_handler inner (with_identity r username role)
           (w_call (Header_Set ''Content-Type'' ''application/json'') s)
         = (Return (None, None), s')"
    using assms(5) by (simp add: MiddlewareAdapter_handler_def)
  then have "JWTAuthMiddleware e (MiddlewareAdapter_handler inner) r
               (w_call (Header_Set ''Content-Type'' ''application/json'') s)
             = (Return (Some \<lparr>Status = 200, Data = None\<rparr>, None), s')"
    by (rule JWTAuthMiddleware_never_returns_envelope_of_next [OF assms(1-4)])
  then show ?thesis
    by (simp add: MiddlewareAdapter_def w_call_def)
qed

lemma sample_MiddlewareAdapter_admin:
  assumes "inner (with_identity (sample_request i [''Bearer admin.tok''] b) ''Admin'' ''admin'')
           (w_call (Header_Set ''Content-Type'' ''application/json'') s) = (Return u, s')"
  shows "MiddlewareAdapter (JWTAuthMiddleware sample_env) inner
           (sample_request i [''Bearer admin.tok''] b) s
           = (Return (), s'\<lparr>W := W s' @ [WriteHeader 200]\<rparr>)"
  using assms
  by (intro MiddlewareAdapter_JWTAuthMiddleware_accepted [where tok = "''admin.tok''"
        and c = "[(''username'', IString ''Admin''), (''role'', IString ''admin''), (''exp'', INumber 1900)]"])
     (simp_all add: sample_header_Get sample_Verify_admin)

lemma sample_MiddlewareAdapter_bob:
  assumes "inner (with_identity (sample_request i [''Bearer bob.tok''] b) ''Bob'' ''user'')
           (w_call (Header_Set ''Content-Type'' ''application/json'') s) = (Return u, s')"
  shows "MiddlewareAdapter (JWTAuthMiddleware sample_env) inner
           (sample_request i [''Bearer bob.tok''] b) s
           = (Return (), s'\<lparr>W := W s' @ [WriteHeader 200]\<rparr>)"
  using assms
  by (intro MiddlewareAdapter_JWTAuthMiddleware_accepted [where tok = "''bob.tok''"
        and c = "[(''username'', IString ''Bob''), (''role'', IString ''user''), (''exp'', INumber 1900)]"])
     (simp_all add: sample_header_Get sample_Verify_bob)

lemma sample_updateUser:
  "updateUser sample_env
     (with_identity (sample_request ''2'' a ''name=Ann;email=ann@x.org'') username role)
     (w_call c (w_call c' sample_world))
   = (Return (None, Some \<lparr>ErrStatus = 403,
        ErrMessage = \<lparr>Code = ''E403'', Message = ''Forbidden'',
          Detail = ''You are no authorized to update another user than yourself''\<rparr>\<rparr>),
      \<lparr>W = [c', c], DB = sample_db\<lparr>executed := [SELECT_id_name_by_id 2]\<rparr>\<rparr>)"
proof -
  have "updateUser sample_env
     (with_identity (sample_request ''2'' a ''name=Ann;email=ann@x.org'') username role)
     (w_call c (w_call c' sample_world))
   = (Return (None, Some \<lparr>ErrStatus = 403,
        ErrMessage = \<lparr>Code = ''E403'', Message = ''Forbidden'',
          Detail = ''You are no authorized to update another user than yourself''\<rparr>\<rparr>),
      (w_call c (w_call c' sample_world))\<lparr>DB := (DB (w_call c (w_call c' sample_world)))
          \<lparr>faults := tl (faults (DB (w_call c (w_call c' sample_world)))),
           executed := executed (DB (w_call c (w_call c' sample_world))) @ [SELECT_id_name_by_id 2]\<rparr>\<rparr>)"
    by (rule updateUser_forbidden [where req = "\<lparr>req_Name = ''Ann'', req_Email = ''ann@x.org''\<rparr>"])
       (simp_all add: typed_key_invisible sample_put_facts sample_URLParam Atoi_samples
          sample_world_simps)
  then show ?thesis
    by (simp add: sample_world_simps w_call_def sample_world_def sample_db_def)
qed

lemma sample_route_PUT_id_admin:
  "route_PUT_id sample_env
     (sample_request ''2'' [''Bearer admin.tok''] ''name=Ann;email=ann@x.org'') sample_world
   = (Return (),
      \<lparr>W = [Header_Set ''Content-Type'' ''application/json'',
            Header_Set ''Content-Type'' ''application/json'',
            WriteHeader 403,
            Encode (Some (ErrorData \<lparr>Code = ''E403'', Message = ''Forbidden'',
              Detail = ''You are no authorized to update another user than yourself''\<rparr>)),
            WriteHeader 200],
       DB = sample_db\<lparr>executed := [SELECT_id_name_by_id 2]\<rparr>\<rparr>)"
  unfolding route_PUT_id_def logSomething_def
  by (subst sample_MiddlewareAdapter_admin, rule ApiHandlerAdapter_failure, rule sample_updateUser)
     simp

lemma sample_route_PUT_id_bob:
  "route_PUT_id sample_env
     (sample_request ''2'' [''Bearer bob.tok''] ''name=Ann;email=ann@x.org'') sample_world
   = (Return (),
      \<lparr>W = [Header_Set ''Content-Type'' ''application/json'',
            Header_Set ''Content-Type'' ''application/json'',
            WriteHeader 403,
            Encode (Some (ErrorData \<lparr>Code = ''E403'', Message = ''Forbidden'',
              Detail = ''You are no authorized to update another user than yourself''\<rparr>)),
            WriteHeader 200],
       DB = sample_db\<lparr>executed := [SELECT_id_name_by_id 2]\<rparr>\<rparr>)"
  unfolding route_PUT_id_def logSomething_def
  by (subst sample_MiddlewareAdapter_bob, rule ApiHandlerAdapter_failure, rule sample_updateUser)
     simp

section \<open>The routes on concrete requests\<close>

lemma MiddlewareAdapter_OnlyAdminMiddleware_admin:
  assumes "ctx_Value (Context r) ContextRoleKey = Some (IString ''admin'')"
    and "inner r (w_call (Header_Set ''Content-Type'' ''application/json'') s) = (Return u, s')"
  shows "MiddlewareAdapter OnlyAdminMiddleware inner r s = (Return (), s')"
  using assms
  by (simp add: MiddlewareAdapter_def OnlyAdminMiddleware_admin MiddlewareAdapter_handler_def)

lemma sample_deleteUser:
  "deleteUser (with_identity (sample_request ''2'' a b) username role)
     (w_call c3 (w_call c2 (w_call c1 sample_world)))
   = (Return (Some \<lparr>Status = 204, Data = None\<rparr>, None),
      \<lparr>W = [c1, c2, c3],
       DB = \<lparr>users = [\<lparr>row_id = 1, row_name = ''Admin'', row_email = ''admin@x.org'',
                        row_password = ''#root'', row_role = ''admin''\<rparr>],
             faults = [], executed = [DELETE_by_id 2]\<rparr>\<rparr>)"
  by (subst deleteUser_no_fault [where i = 2])
     (simp_all add: sample_URLParam Atoi_samples sample_world_simps w_call_def sample_world_def
        sample_db_def)

lemma sample_deleteUser_missing:
  "deleteUser (with_identity (sample_request ''42'' a b) username role)
     (w_call c3 (w_call c2 (w_call c1 sample_world)))
   = (Return (Some \<lparr>Status = 204, Data = None\<rparr>, None),
      \<lparr>W = [c1, c2, c3], DB = sample_db\<lparr>executed := [DELETE_by_id 42]\<rparr>\<rparr>)"
  by (subst deleteUser_no_fault [where i = 42])
     (simp_all add: sample_URLParam Atoi_samples sample_world_simps w_call_def sample_world_def
        sample_db_def)

lemma sample_route_DELETE_id_admin:
  "route_DELETE_id sample_env (sample_request ''2'' [''Bearer admin.tok''] []) sample_world
   = (Return (),
      \<lparr>W = [Header_Set ''Content-Type'' ''application/json'',
            Header_Set ''Content-Type'' ''application/json'',
            Header_Set ''Content-Type'' ''application/json'',
            WriteHeader 204, Encode None, WriteHeader 200],
       DB = \<lparr>users = [\<lparr>row_id = 1, row_name = ''Admin'', row_email = ''admin@x.org'',
                        row_password = ''#root'', row_role = ''admin''\<rparr>],
             faults = [], executed = [DELETE_by_id 2]\<rparr>\<rparr>)"
  unfolding route_DELETE_id_def logSomething_def
  by (subst sample_MiddlewareAdapter_admin,
      rule MiddlewareAdapter_OnlyAdminMiddleware_admin, rule with_identity_role,
      rule ApiHandlerAdapter_success, rule sample_deleteUser) simp

lemma sample_route_DELETE_id_missing:
  "route_DELETE_id sample_env (sample_request ''42'' [''Bearer admin.tok''] []) sample_world
   = (Return (),
      \<lparr>W = [Header_Set ''Content-Type'' ''application/json'',
            Header_Set ''Content-Type'' ''application/json'',
            Header_Set ''Content-Type'' ''application/json'',
            WriteHeader 204, Encode None, WriteHeader 200],
       DB = sample_db\<lparr>executed := [DELETE_by_id 42]\<rparr>\<rparr>)"
  unfolding route_DELETE_id_def logSomething_def
  by (subst sample_MiddlewareAdapter_admin,
      rule MiddlewareAdapter_OnlyAdminMiddleware_admin, rule with_identity_role,
      rule ApiHandlerAdapter_success, rule sample_deleteUser_missing) simp

lemma on_wire_simps:
  "on_wire [] = \<lparr>sent_status = None, sent_body = [], failed_writes = 0, superfluous_WriteHeader = 0\<rparr>"
  "on_wire (cs @ [c]) = wire_step (on_wire cs) c"
  by (simp_all add: on_wire_def)

lemma on_wire_samples:
  "on_wire [Header_Set ''Content-Type'' ''application/json'',
            Header_Set ''Content-Type'' ''application/json'',
            Header_Set ''Content-Type'' ''application/json'',
            WriteHeader 204, Encode None, WriteHeader 200]
   = \<lparr>sent_status = Some 204, sent_body = [], failed_writes = 1, superfluous_WriteHeader = 1\<rparr>"
  "on_wire [Header_Set ''Content-Type'' ''application/json'', WriteHeader 204, Encode None]
   = \<lparr>sent_status = Some 204, sent_body = [], failed_writes = 1, superfluous_WriteHeader = 0\<rparr>"
  "on_wire [Header_Set ''Content-Type'' ''application/json'',
            Header_Set ''Content-Type'' ''application/json'',
            WriteHeader 403, Encode (Some p), WriteHeader 200]
   = \<lparr>sent_status = Some 403, sent_body = [Some p], failed_writes = 0, superfluous_WriteHeader = 1\<rparr>"
  by (simp_all add: on_wire_def bodyAllowedForStatus_def)

text \<open>
  Claim C3 (the code departs from it). The claim: on \<open>PUT /users/{id}\<close> with an existing
  target and a valid body, the owner and an admin get 200 with the updated user. The
  source says the same in its comment ("user can update only if he is the same user or he
  is an admin"). The code answers 403 to both: the request \<open>PUT /users/2\<close> with the admin's
  verified token, and the same request with the token of Bob, whose record has the id 2,
  each send the status 403 and leave the table as it was; only the SELECT is executed.
\<close>

theorem updateUser_refuses_admin_and_owner:
  "sent_status (on_wire (W (snd (route_PUT_id sample_env
      (sample_request ''2'' [''Bearer admin.tok''] ''name=Ann;email=ann@x.org'') sample_world))))
     = Some 403
   \<and> DB (snd (route_PUT_id sample_env
      (sample_request ''2'' [''Bearer admin.tok''] ''name=Ann;email=ann@x.org'') sample_world))
     = sample_db\<lparr>executed := [SELECT_id_name_by_id 2]\<rparr>
   \<and> sent_status (on_wire (W (snd (route_PUT_id sample_env
      (sample_request ''2'' [''Bearer bob.tok''] ''name=Ann;email=ann@x.org'') sample_world))))
     = Some 403
   \<and> DB (snd (route_PUT_id sample_env
      (sample_request ''2'' [''Bearer bob.tok''] ''name=Ann;email=ann@x.org'') sample_world))
     = sample_db\<lparr>executed := [SELECT_id_name_by_id 2]\<rparr>"
  by (simp add: sample_route_PUT_id_admin sample_route_PUT_id_bob on_wire_samples)

theorem updateUser_refuses_admin_and_owner_witness:
  "sent_status (on_wire (W (snd (route_PUT_id sample_env
      (sample_request ''2'' [''Bearer admin.tok''] ''name=Ann;email=ann@x.org'') sample_world))))
     \<noteq> Some 200
   \<and> users (DB (snd (route_PUT_id sample_env
      (sample_request ''2'' [''Bearer admin.tok''] ''name=Ann;email=ann@x.org'') sample_world)))
     = users sample_db"
  using updateUser_refuses_admin_and_owner by simp

text \<open>
  Claim C7 (the code departs from it). The claim: the status is written exactly once per
  request, and the outer adapter writes no second status after the inner adapter has
  rendered the response. For \<open>DELETE /users/2\<close> with the admin's verified token the calls on
  the response writer are three times the content type, \<open>WriteHeader(204)\<close> and the
  encoder's call by the inner adapter, and then \<open>WriteHeader(200)\<close> by the adapter around
  \<open>JWTAuthMiddleware\<close>: two status writes, the second one superfluous on the wire. The same
  happens on \<open>PUT /users/2\<close>. The cause is the envelope \<open>{200, nil}\<close> that
  \<open>JWTAuthMiddleware\<close> returns in place of the one of \<open>next\<close> (claim C1); by
  \<open>MiddlewareAdapter_JWTAuthMiddleware_accepted\<close> every verified request whose rest of the
  chain returns gets this extra \<open>WriteHeader(200)\<close>.
\<close>

theorem authenticated_request_writes_status_twice:
  "W (snd (route_DELETE_id sample_env (sample_request ''2'' [''Bearer admin.tok''] []) sample_world))
     = [Header_Set ''Content-Type'' ''application/json'',
        Header_Set ''Content-Type'' ''application/json'',
        Header_Set ''Content-Type'' ''application/json'',
        WriteHeader 204, Encode None, WriteHeader 200]
   \<and> count_WriteHeader (W (snd (route_DELETE_id sample_env
        (sample_request ''2'' [''Bearer admin.tok''] []) sample_world))) = 2
   \<and> superfluous_WriteHeader (on_wire (W (snd (route_DELETE_id sample_env
        (sample_request ''2'' [''Bearer admin.tok''] []) sample_world)))) = 1
   \<and> count_WriteHeader (W (snd (route_PUT_id sample_env
        (sample_request ''2'' [''Bearer admin.tok''] ''name=Ann;email=ann@x.org'') sample_world))) = 2"
  by (simp add: sample_route_DELETE_id_admin sample_route_PUT_id_admin on_wire_samples
        count_WriteHeader_def)

theorem authenticated_request_writes_status_twice_witness:
  "count_WriteHeader (W (snd (route_DELETE_id sample_env
        (sample_request ''2'' [''Bearer admin.tok''] []) sample_world))) \<noteq> 1"
proof -
  have "count_WriteHeader (W (snd (route_DELETE_id sample_env
        (sample_request ''2'' [''Bearer admin.tok''] []) sample_world))) = 2"
    using authenticated_request_writes_status_twice by blast
  then show ?thesis by simp
qed

section \<open>Rendering a success without data\<close>

text \<open>The content type is the first call of \<open>ApiHandlerAdapter\<close> on the response writer,
  for every handler that leaves the writer alone, as the handlers of this program do.\<close>

lemma ApiHandlerAdapter_Content_Type_first:
  assumes "W (snd (handler r (w_call (Header_Set ''Content-Type'' ''application/json'') s)))
             = W (w_call (Header_Set ''Content-Type'' ''application/json'') s)"
  shows "\<exists>rest. W (snd (ApiHandlerAdapter handler r s))
                  = W s @ Header_Set ''Content-Type'' ''application/json'' # rest"
  using assms
  by (auto simp: ApiHandlerAdapter_def w_call_def split: prod.splits outcome.splits option.splits)

text \<open>\<open>MiddlewareAdapter\<close> guards the encoder with \<open>success.Data != nil\<close>;
  \<open>ApiHandlerAdapter\<close> has no such guard and encodes \<open>nil\<close>.\<close>

lemma MiddlewareAdapter_nil_data:
  assumes "mw (MiddlewareAdapter_handler inner) r
             (w_call (Header_Set ''Content-Type'' ''application/json'') s)
           = (Return (Some \<lparr>Status = st, Data = None\<rparr>, None), s')"
  shows "MiddlewareAdapter mw inner r s = (Return (), s'\<lparr>W := W s' @ [WriteHeader st]\<rparr>)"
  using assms by (simp add: MiddlewareAdapter_def w_call_def)

lemma ApiHandlerAdapter_nil_data:
  assumes "handler r (w_call (Header_Set ''Content-Type'' ''application/json'') s)
             = (Return (Some \<lparr>Status = st, Data = None\<rparr>, None), s')"
  shows "ApiHandlerAdapter handler r s
           = (Return (), s'\<lparr>W := W s' @ [WriteHeader st, Encode None]\<rparr>)"
  using assms by (simp add: ApiHandlerAdapter_def w_call_def)

lemma sample_ApiHandlerAdapter_deleteUser:
  "ApiHandlerAdapter deleteUser
     (with_identity (sample_request ''2'' [''Bearer admin.tok''] []) ''Admin'' ''admin'')
     (w_call (Header_Set ''Content-Type'' ''application/json'')
       (w_call (Header_Set ''Content-Type'' ''application/json'') sample_world))
   = (Return (),
      \<lparr>W = [Header_Set ''Content-Type'' ''application/json'',
            Header_Set ''Content-Type'' ''application/json'',
            Header_Set ''Content-Type'' ''application/json'',
            WriteHeader 204, Encode None],
       DB = \<lparr>users = [\<lparr>row_id = 1, row_name = ''Admin'', row_email = ''admin@x.org'',
                        row_password = ''#root'', row_role = ''admin''\<rparr>],
             faults = [], executed = [DELETE_by_id 2]\<rparr>\<rparr>)"
  by (subst ApiHandlerAdapter_nil_data, rule sample_deleteUser) simp

text \<open>
  Claim C8 (the code departs from it). The claim: a success envelope without data is
  rendered as the status and an empty body, with no encoding error. \<open>ApiHandlerAdapter\<close>,
  run on \<open>deleteUser\<close> as the route \<open>DELETE /users/{id}\<close> runs it, for \<open>/users/2\<close> and the
  admin: after \<open>WriteHeader(204)\<close> it calls the encoder on \<open>nil\<close>, which writes the text
  \<open>null\<close>; under the status 204 the response writer refuses the write, so the body on the
  wire stays empty only because the encoder's write failed (\<open>failed_writes = 1\<close>).
\<close>

theorem ApiHandlerAdapter_encodes_nil_data:
  "W (snd (ApiHandlerAdapter deleteUser
        (with_identity (sample_request ''2'' [''Bearer admin.tok''] []) ''Admin'' ''admin'')
        (w_call (Header_Set ''Content-Type'' ''application/json'')
          (w_call (Header_Set ''Content-Type'' ''application/json'') sample_world))))
     = [Header_Set ''Content-Type'' ''application/json'',
        Header_Set ''Content-Type'' ''application/json'',
        Header_Set ''Content-Type'' ''application/json'',
        WriteHeader 204, Encode None]
   \<and> on_wire (W (snd (route_DELETE_id sample_env
        (sample_request ''2'' [''Bearer admin.tok''] []) sample_world)))
     = \<lparr>sent_status = Some 204, sent_body = [], failed_writes = 1, superfluous_WriteHeader = 1\<rparr>"
  by (simp add: sample_ApiHandlerAdapter_deleteUser sample_route_DELETE_id_admin on_wire_samples)

theorem ApiHandlerAdapter_encodes_nil_data_witness:
  "Encode None \<in> set (W (snd (ApiHandlerAdapter deleteUser
        (with_identity (sample_request ''2'' [''Bearer admin.tok''] []) ''Admin'' ''admin'')
        (w_call (Header_Set ''Content-Type'' ''application/json'')
          (w_call (Header_Set ''Content-Type'' ''application/json'') sample_world)))))"
proof -
  have "W (snd (ApiHandlerAdapter deleteUser
        (with_identity (sample_request ''2'' [''Bearer admin.tok''] []) ''Admin'' ''admin'')
        (w_call (Header_Set ''Content-Type'' ''application/json'')
          (w_call (Header_Set ''Content-Type'' ''application/json'') sample_world))))
     = [Header_Set ''Content-Type'' ''application/json'',
        Header_Set ''Content-Type'' ''application/json'',
        Header_Set ''Content-Type'' ''application/json'',
        WriteHeader 204, Encode None]"
    using ApiHandlerAdapter_encodes_nil_data by blast
  then show ?thesis by simp
qed

section \<open>Deleting a user that does not exist\<close>

text \<open>\<open>Exec\<close> never fails with \<open>ErrNoRows\<close>, so the 404 branch of \<open>deleteUser\<close> is dead.\<close>

lemma fault_error_not_ErrNoRows: "fault_error f \<noteq> ErrNoRows"
  by (cases f) simp_all

lemma deleteUser_never_404:
  "fst (deleteUser r s) = Return (success, Some err) \<Longrightarrow> ErrStatus err \<noteq> 404"
  using fault_error_not_ErrNoRows
  by (auto simp: deleteUser_def Exec_delete_def begin_stmt_def Let_def
           split: option.splits list.splits if_splits)

text \<open>
  Claim C9 (the code departs from it). The claim: \<open>DELETE /users/{id}\<close> with an integer id
  that no record has answers 404 / E404. The table has no user 42; the request
  \<open>DELETE /users/42\<close> with the admin's verified token sends the status 204, and the DELETE
  statement was executed.
\<close>

theorem deleteUser_missing_user_is_204:
  "find (\<lambda>u. row_id u = 42) (users sample_db) = None
   \<and> on_wire (W (snd (route_DELETE_id sample_env
        (sample_request ''42'' [''Bearer admin.tok''] []) sample_world)))
     = \<lparr>sent_status = Some 204, sent_body = [], failed_writes = 1, superfluous_WriteHeader = 1\<rparr>
   \<and> DB (snd (route_DELETE_id sample_env
        (sample_request ''42'' [''Bearer admin.tok''] []) sample_world))
     = sample_db\<lparr>executed := [DELETE_by_id 42]\<rparr>"
  by (simp add: sample_route_DELETE_id_missing on_wire_samples sample_put_facts)

theorem deleteUser_missing_user_is_204_witness:
  "sent_status (on_wire (W (snd (route_DELETE_id sample_env
        (sample_request ''42'' [''Bearer admin.tok''] []) sample_world)))) \<noteq> Some 404"
proof -
  have "on_wire (W (snd (route_DELETE_id sample_env
        (sample_request ''42'' [''Bearer admin.tok''] []) sample_world)))
     = \<lparr>sent_status = Some 204, sent_body = [], failed_writes = 1, superfluous_WriteHeader = 1\<rparr>"
    using deleteUser_missing_user_is_204 by blast
  then show ?thesis by simp
qed

section \<open>The credential check of Login\<close>

lemma CreateJwtToken_ignores_hasher:
  "CreateJwtToken (e\<lparr>CompareHashAndPassword := f\<rparr>) n ro = CreateJwtToken e n ro"
  by (simp add: CreateJwtToken_def)

text \<open>The Login with the password in the query never consults the hasher: replacing the
  hasher by any other function changes nothing.\<close>

lemma Login_password_in_query_ignores_hasher:
  "Login_password_in_query (e\<lparr>CompareHashAndPassword := f\<rparr>) r s = Login_password_in_query e r s"
  by (simp add: Login_password_in_query_def CreateJwtToken_ignores_hasher
        cong: option.case_cong sum.case_cong prod.case_cong if_cong)

lemma QueryRow_select_by_email_found:
  assumes "faults db = [] \<or> hd (faults db) = None"
    and "find (\<lambda>u. row_email u = em) (users db) = Some u"
  shows "QueryRow_select_by_email em db =
           (Inr u, db\<lparr>faults := tl (faults db), executed := executed db @ [SELECT_by_email em]\<rparr>)"
  using assms
  by (cases "faults db") (auto simp: QueryRow_select_by_email_def begin_stmt_def)

text \<open>The Login with the hasher: for an existing email the answer is decided by
  \<open>CompareHashAndPassword(stored hash, supplied password)\<close> and by nothing else.\<close>

lemma Login_decided_by_verify:
  assumes "decode_loginRequest e (Body r) = Some req"
    and "login_Email req \<noteq> []" and "login_Password req \<noteq> []"
    and "faults (DB s) = [] \<or> hd (faults (DB s)) = None"
    and "find (\<lambda>u. row_email u = login_Email req) (users (DB s)) = Some u"
    and "CreateJwtToken e (row_name u) (row_role u) = Some token"
  shows "fst (Login e r s) =
           (if CompareHashAndPassword e (row_password u) (login_Password req)
            then Return (Some \<lparr>Status = 200,
                   Data = Some (AuthData \<lparr>auth_Message = ''Login successful'', Token = token\<rparr>)\<rparr>,
                   None)
            else Return (None, Some \<lparr>ErrStatus = 401,
                   ErrMessage = \<lparr>Code = ''E401'', Message = ''Unauthorized'',
                                 Detail = ''Invalid email or password''\<rparr>\<rparr>))"
  using assms(1-3,6) QueryRow_select_by_email_found [OF assms(4,5)]
  by (simp add: Login_def)

lemma sample_login_facts:
  "decode_loginRequest sample_env ''bob@x.org:hunter2''
     = Some \<lparr>login_Email = ''bob@x.org'', login_Password = ''hunter2''\<rparr>"
  "decode_loginRequest sample_env ''bob@x.org:#hunter2''
     = Some \<lparr>login_Email = ''bob@x.org'', login_Password = ''#hunter2''\<rparr>"
  "CompareHashAndPassword sample_env h p = (h = CHR ''#'' # p)"
  "CreateJwtToken sample_env n ro = Some ''signed''"
  by (simp_all add: sample_env_def CreateJwtToken_def)

lemma sample_select_password:
  "QueryRow_select_by_email_and_password ''bob@x.org'' ''#hunter2'' sample_db
     = (Inr \<lparr>row_id = 2, row_name = ''Bob'', row_email = ''bob@x.org'',
             row_password = ''#hunter2'', row_role = ''user''\<rparr>,
        sample_db\<lparr>executed := [SELECT_by_email_and_password ''bob@x.org'' ''#hunter2'']\<rparr>)"
  "QueryRow_select_by_email_and_password ''bob@x.org'' ''hunter2'' sample_db
     = (Inl ErrNoRows,
        sample_db\<lparr>executed := [SELECT_by_email_and_password ''bob@x.org'' ''hunter2'']\<rparr>)"
  by (simp_all add: QueryRow_select_by_email_and_password_def begin_stmt_def sample_db_def)

text \<open>
  Claim C6 (one of the two Logins departs from it). The claim: the credential check is
  \<open>verify(stored hash, supplied password)\<close>, never an equality, and never an equality
  inside the store query. The Login with the hasher satisfies it
  (\<open>Login_decided_by_verify\<close>). The Login with the password in the query does not. The
  store holds for \<open>bob@x.org\<close> the hash \<open>#hunter2\<close> of the password \<open>hunter2\<close>. A login
  with the stored hash itself as the password is answered 200 with a token, although the
  hasher rejects it; a login with the right password, which the hasher accepts, is
  answered 401; and the only thing that happened in between is the query with the
  password as its second argument.
\<close>

theorem Login_password_in_query_compares_by_equality:
  "fst (Login_password_in_query sample_env (sample_request [] [] ''bob@x.org:#hunter2'') sample_world)
     = Return (Some \<lparr>Status = 200,
         Data = Some (AuthData \<lparr>auth_Message = ''Login successful'', Token = ''signed''\<rparr>)\<rparr>, None)
   \<and> \<not> CompareHashAndPassword sample_env ''#hunter2'' ''#hunter2''
   \<and> fst (Login_password_in_query sample_env (sample_request [] [] ''bob@x.org:hunter2'') sample_world)
     = Return (None, Some \<lparr>ErrStatus = 401,
         ErrMessage = \<lparr>Code = ''E401'', Message = ''Unauthorized'',
                       Detail = ''Invalid email or password''\<rparr>\<rparr>)
   \<and> CompareHashAndPassword sample_env ''#hunter2'' ''hunter2''
   \<and> executed (DB (snd (Login_password_in_query sample_env
        (sample_request [] [] ''bob@x.org:hunter2'') sample_world)))
     = [SELECT_by_email_and_password ''bob@x.org'' ''hunter2'']"
  by (simp add: Login_password_in_query_def sample_put_facts sample_login_facts
        sample_world_simps sample_select_password)

theorem Login_password_in_query_compares_by_equality_witness:
  "fst (Login_password_in_query sample_env (sample_request [] [] ''bob@x.org:hunter2'') sample_world)
   \<noteq> fst (Login sample_env (sample_request [] [] ''bob@x.org:hunter2'') sample_world)"
proof -
  have "fst (Login_password_in_query sample_env (sample_request [] [] ''bob@x.org:hunter2'') sample_world)
     = Return (None, Some \<lparr>ErrStatus = 401,
         ErrMessage = \<lparr>Code = ''E401'', Message = ''Unauthorized'',
                       Detail = ''Invalid email or password''\<rparr>\<rparr>)"
    using Login_password_in_query_compares_by_equality by blast
  moreover have "fst (Login sample_env (sample_request [] [] ''bob@x.org:hunter2'') sample_world)
     = Return (Some \<lparr>Status = 200,
         Data = Some (AuthData \<lparr>auth_Message = ''Login successful'', Token = ''signed''\<rparr>)\<rparr>, None)"
    by (subst Login_decided_by_verify
          [where req = "\<lparr>login_Email = ''bob@x.org'', login_Password = ''hunter2''\<rparr>"
             and token = "''signed''"
             and u = "\<lparr>row_id = 2, row_name = ''Bob'', row_email = ''bob@x.org'',
                        row_password = ''#hunter2'', row_role = ''user''\<rparr>"])
       (simp_all add: sample_put_facts sample_login_facts sample_world_simps sample_db_def)
  ultimately show ?thesis by simp
qed

end
